theory Spec2Isabelle
  imports Complex_Main
begin

section \<open>The volume fragment shader (script \<open>volume-fs\<close>)\<close>

text \<open>
  GLSL \<open>float\<close> values are idealised as real numbers and GLSL \<open>int\<close> values as
  integers: rounding, overflow and NaN are outside this development.  Operations whose
  result GLSL ES leaves unspecified (without interrupting the shader) are written out
  where a tile coordinate depends on them.
\<close>

datatype vec3 = Vec3 (vx: real) (vy: real) (vz: real)

datatype vec4 = Vec4 (cr: real) (cg: real) (cb: real) (ca: real)

text \<open>The \<open>.xyz\<close> swizzle of a \<open>vec4\<close>.\<close>

definition xyz :: "vec4 \<Rightarrow> vec3" where
  "xyz c = Vec3 (cr c) (cg c) (cb c)"

definition vsub :: "vec3 \<Rightarrow> vec3 \<Rightarrow> vec3" where
  "vsub p q = Vec3 (vx p - vx q) (vy p - vy q) (vz p - vz q)"

definition vadd :: "vec3 \<Rightarrow> vec3 \<Rightarrow> vec3" where
  "vadd p q = Vec3 (vx p + vx q) (vy p + vy q) (vz p + vz q)"

text \<open>Componentwise product with \<open>vec3(d)\<close>.\<close>

definition vscale :: "vec3 \<Rightarrow> real \<Rightarrow> vec3" where
  "vscale p d = Vec3 (vx p * d) (vy p * d) (vz p * d)"

definition vlength :: "vec3 \<Rightarrow> real" where
  "vlength p = sqrt (vx p * vx p + vy p * vy p + vz p * vz p)"

text \<open>
  \<open>normalize(v)\<close> is \<open>v / length(v)\<close>.  For the zero vector this is 0/0: GLSL leaves the
  result unspecified (it is not a number on most hardware), which is \<open>None\<close> here.
\<close>

definition normalize_vec3 :: "vec3 \<Rightarrow> vec3 option" where
  "normalize_vec3 p =
     (if vlength p = 0 then None
      else Some (Vec3 (vx p / vlength p) (vy p / vlength p) (vz p / vlength p)))"

text \<open>The uniforms of the shader that address the slice atlas.\<close>

record volume_uniforms =
  uNumSlices :: int
  uSlicesPerRow :: int
  uSliceWidth :: real
  uSliceHeight :: real

text \<open>
  \<open>mod(x, y) = x - y * floor(x / y)\<close>, the conversion \<open>int(x)\<close> (the fractional part is
  dropped) and the integer quotient (rounded toward zero).  A zero divisor gives an
  unspecified result in GLSL ES, which does not stop the shader: it is \<open>None\<close> here.
\<close>

definition glsl_mod :: "real \<Rightarrow> real \<Rightarrow> real option" where
  "glsl_mod x y = (if y = 0 then None else Some (x - y * of_int \<lfloor>x / y\<rfloor>))"

definition glsl_int :: "real \<Rightarrow> int" where
  "glsl_int x = (if 0 \<le> x then \<lfloor>x\<rfloor> else \<lceil>x\<rceil>)"

definition glsl_idiv :: "int \<Rightarrow> int \<Rightarrow> int option" where
  "glsl_idiv i j = (if j = 0 then None else Some (sgn i * sgn j * (\<bar>i\<bar> div \<bar>j\<bar>)))"

text \<open>
  The tile origin of a slice,
  \<open>vec2(mod(slice, float(uSlicesPerRow)), float(int(slice) / uSlicesPerRow))\<close>.
\<close>

definition tileOrigin :: "volume_uniforms \<Rightarrow> real \<Rightarrow> (real \<times> real) option" where
  "tileOrigin u slice =
     (case glsl_mod slice (of_int (uSlicesPerRow u)) of
        None \<Rightarrow> None
      | Some column \<Rightarrow>
          (case glsl_idiv (glsl_int slice) (uSlicesPerRow u) of
             None \<Rightarrow> None
           | Some row \<Rightarrow> Some (column, of_int row)))"

text \<open>\<open>(tileOrigin + pos.xy) * vec2(uSliceWidth, uSliceHeight)\<close>.\<close>

definition sliceUV :: "volume_uniforms \<Rightarrow> real \<Rightarrow> vec3 \<Rightarrow> (real \<times> real) option" where
  "sliceUV u slice pos =
     (case tileOrigin u slice of
        None \<Rightarrow> None
      | Some (column, row) \<Rightarrow>
          Some ((column + vx pos) * uSliceWidth u, (row + vy pos) * uSliceHeight u))"

text \<open>
  The red channel of \<open>texture2D(uVolumeTexture, uv)\<close>.  The texture is an input of the
  shader; at a coordinate that GLSL leaves unspecified (\<open>None\<close>) it returns whatever the
  implementation fetches.
\<close>

type_synonym sampler = "(real \<times> real) option \<Rightarrow> real"

definition sampleVolume :: "sampler \<Rightarrow> volume_uniforms \<Rightarrow> vec3 \<Rightarrow> real" where
  "sampleVolume tex u pos =
     (let sliceBelow = of_int \<lfloor>vz pos * of_int (uNumSlices u - 1)\<rfloor> :: real;
          sliceAbove = of_int \<lceil>vz pos * of_int (uNumSlices u - 1)\<rceil> :: real;
          belowSliceUV = sliceUV u sliceBelow pos;
          aboveSliceUV = sliceUV u sliceAbove pos;
          valueBelow = tex belowSliceUV
      in if sliceBelow = sliceAbove then valueBelow
         else
           (let valueAbove = tex aboveSliceUV;
                a = sliceAbove - vz pos * of_int (uNumSlices u - 1)
            in valueAbove * (1 - a) + valueBelow * a))"

text \<open>
  The hard-coded transfer function of \<open>integrateVolume\<close>.  \<open>pow(sample, 1.1)\<close> is
  \<open>sample powr 1.1\<close> for a sample that is not negative; GLSL leaves it undefined for a
  negative one.
\<close>

definition tfAbsorbtion :: "real \<Rightarrow> real" where
  "tfAbsorbtion sample =
     (let t = sample powr 1.1 in if t < 0.05 then 0 else t)"

definition step :: real where
  "step = 0.01"

definition tfOpacity :: "real \<Rightarrow> real" where
  "tfOpacity sample = 1 - exp (- step * tfAbsorbtion sample * 40)"

definition sampleColor :: "real \<Rightarrow> vec3" where
  "sampleColor sample =
     (if sample > 0.35 then Vec3 0.6 sample sample
      else Vec3 sample sample (sample + 0.1))"

text \<open>
  The state of the loop of \<open>integrateVolume\<close>: the accumulated \<open>color\<close> and the
  \<open>depth\<close> along the ray.
\<close>

type_synonym ray_state = "vec4 \<times> real"

definition loop_break :: "real \<Rightarrow> ray_state \<Rightarrow> bool" where
  "loop_break thickness s = (snd s > thickness \<or> ca (fst s) > 0.98)"

definition loop_body :: "sampler \<Rightarrow> volume_uniforms \<Rightarrow> vec3 \<Rightarrow> vec3 \<Rightarrow> ray_state \<Rightarrow> ray_state" where
  "loop_body tex u entryPoint vector s =
     (let color = fst s; depth = snd s;
          sample = sampleVolume tex u (vadd entryPoint (vscale vector depth));
          opacity = tfOpacity sample;
          sc = sampleColor sample;
          rgb = Vec3 (vx sc * opacity * (1 - ca color) + cr color)
                     (vy sc * opacity * (1 - ca color) + cg color)
                     (vz sc * opacity * (1 - ca color) + cb color);
          alpha = opacity * (1 - ca color) + ca color
      in (Vec4 (vx rgb) (vy rgb) (vz rgb) alpha, depth + step))"

text \<open>
  The loop \<open>for (int i = 0; i < 10000; ++i)\<close>; the first argument after the ray is the
  number of iterations that are left.
\<close>

fun integrate_loop ::
  "sampler \<Rightarrow> volume_uniforms \<Rightarrow> vec3 \<Rightarrow> vec3 \<Rightarrow> real \<Rightarrow> nat \<Rightarrow> ray_state \<Rightarrow> vec4" where
  "integrate_loop tex u entryPoint vector thickness 0 s = fst s"
| "integrate_loop tex u entryPoint vector thickness (Suc n) s =
     (if loop_break thickness s then fst s
      else integrate_loop tex u entryPoint vector thickness n
             (loop_body tex u entryPoint vector s))"

text \<open>
  \<open>integrateVolume\<close>.  When \<open>normalize\<close> leaves the direction unspecified, which is when
  \<open>entryPoint = exitPoint\<close>, the position of the one sample the loop then takes and with
  it the colour returned are unspecified: the result is \<open>None\<close>.
\<close>

definition integrateVolume ::
  "sampler \<Rightarrow> volume_uniforms \<Rightarrow> vec3 \<Rightarrow> vec3 \<Rightarrow> vec4 option" where
  "integrateVolume tex u entryPoint exitPoint =
     (let color = Vec4 0 0 0 0;
          vector = vsub exitPoint entryPoint;
          thickness = vlength vector
      in case normalize_vec3 vector of
           None \<Rightarrow> None
         | Some vector \<Rightarrow>
             Some (integrate_loop tex u entryPoint vector thickness 10000 (color, 0)))"

text \<open>
  The same loop, recording the state at the head of every iteration: the list starts with
  the initial state and holds one more state for each execution of the loop body.
  \<open>integrate_loop\<close> returns the colour of its last element (lemma
  \<open>integrate_loop_last\<close>).
\<close>

fun integrate_states ::
  "sampler \<Rightarrow> volume_uniforms \<Rightarrow> vec3 \<Rightarrow> vec3 \<Rightarrow> real \<Rightarrow> nat \<Rightarrow> ray_state \<Rightarrow> ray_state list" where
  "integrate_states tex u entryPoint vector thickness 0 s = [s]"
| "integrate_states tex u entryPoint vector thickness (Suc n) s =
     (if loop_break thickness s then [s]
      else s # integrate_states tex u entryPoint vector thickness n
                 (loop_body tex u entryPoint vector s))"

text \<open>
  The loop states of \<open>integrateVolume\<close> from its initial state, for a direction
  \<open>vector\<close> and a \<open>thickness\<close>; and the loop states of
  \<open>integrateVolume(entryPoint, exitPoint)\<close>, which are those for the direction and the
  thickness it computes, and are unspecified when the direction is.
\<close>

definition ray_states ::
  "sampler \<Rightarrow> volume_uniforms \<Rightarrow> vec3 \<Rightarrow> vec3 \<Rightarrow> real \<Rightarrow> ray_state list" where
  "ray_states tex u entryPoint vector thickness =
     integrate_states tex u entryPoint vector thickness 10000 (Vec4 0 0 0 0, 0)"

definition integrateVolume_states ::
  "sampler \<Rightarrow> volume_uniforms \<Rightarrow> vec3 \<Rightarrow> vec3 \<Rightarrow> ray_state list option" where
  "integrateVolume_states tex u entryPoint exitPoint =
     (case normalize_vec3 (vsub exitPoint entryPoint) of
        None \<Rightarrow> None
      | Some vector \<Rightarrow>
          Some (ray_states tex u entryPoint vector (vlength (vsub exitPoint entryPoint))))"

text \<open>
  The volume texture is uploaded as luminance bytes: its intensities lie in \<open>[0,1]\<close>.
\<close>

definition unit_range :: "sampler \<Rightarrow> bool" where
  "unit_range tex = (\<forall>uv. 0 \<le> tex uv \<and> tex uv \<le> 1)"

text \<open>
  \<open>main\<close> of the volume shader.  The entry and exit targets are samplers returning a
  \<open>vec4\<close>.  The result is \<open>gl_FragColor\<close> (\<open>None\<close> when \<open>integrateVolume\<close> leaves it
  unspecified) together with the calls of \<open>integrateVolume\<close> that were made, as pairs
  of arguments.
\<close>

type_synonym vec2 = "real \<times> real"

definition volume_main ::
  "(vec2 \<Rightarrow> vec4) \<Rightarrow> (vec2 \<Rightarrow> vec4) \<Rightarrow> sampler \<Rightarrow> volume_uniforms \<Rightarrow> vec2
     \<Rightarrow> vec4 option \<times> (vec3 \<times> vec3) list" where
  "volume_main uEntryPointsSampler uExitPointsSampler tex u vUV =
     (let entryPoint = uEntryPointsSampler vUV;
          exitPoint = uExitPointsSampler vUV
      in if ca entryPoint < 0.1 \<or> ca exitPoint < 0.1 then (Some (Vec4 0 0 0 0), [])
         else
           (let thickness = vlength (vsub (xyz exitPoint) (xyz entryPoint));
                absorbtion = exp (- (thickness * 4));
                color = integrateVolume tex u (xyz entryPoint) (xyz exitPoint)
            in (color, [(xyz entryPoint, xyz exitPoint)])))"


section \<open>The host program (\<open>js/volumerenderer.js\<close>)\<close>

text \<open>
  The numbers passed to the renderer are integers (slice sizes and counts, pixel sizes).
  A JavaScript quotient of two of them is a real number, or is not finite when the
  divisor is 0.
\<close>

datatype jsnum = Finite real | Infinity | NegInfinity | NaN

definition js_div :: "int \<Rightarrow> int \<Rightarrow> jsnum" where
  "js_div i j =
     (if j \<noteq> 0 then Finite (of_int i / of_int j)
      else if i = 0 then NaN else if 0 < i then Infinity else NegInfinity)"

text \<open>
  The calls of the WebGL interface that \<open>draw\<close> and the load callback of the volume
  image make, with the arguments that the properties below depend on.  A program is named
  by the ids of its two script elements, a render target by its key in
  \<open>this.framebuffers\<close>; a location is a uniform or attribute of a program, \<open>None\<close>
  standing for \<open>null\<close> or \<open>undefined\<close>.  The matrices come from the library
  \<open>gl-matrix.js\<close>, which is not part of the sources: they are kept as the values they are
  computed from, the orbit angle with the cube dimensions, and the aspect ratio.
\<close>

type_synonym program = "string \<times> string"

type_synonym location = "program \<times> string"

datatype target = Exitpoints | Entrypoints

datatype depth_func = LESS | GREATER

datatype mesh = Cube | Quad

datatype texture = TargetTexture target | VolumeTexture

datatype cube_dimensions = Dimensions (dim_w: jsnum) (dim_h: jsnum) (dim_d: jsnum)

datatype mat4 = ModelView real cube_dimensions | Projection jsnum

datatype uniform_value = IntValue int | FloatValue jsnum | MatrixValue mat4

datatype gl_call =
    UseProgram program
  | Uniform "location option" uniform_value
  | ClearColor real real real real
  | EnableVertexAttribArray nat
  | EnableDepthTest
  | BindFramebuffer "target option"
  | BindRenderbuffer
  | BindTexture "texture option"
  | ActiveTexture nat
  | DepthFunc depth_func
  | ClearDepth real
  | Clear
  | BindArrayBuffer mesh
  | VertexAttribPointer "location option"
  | BindElementBuffer mesh
  | DrawElements nat
  | DrawArrays nat
  | PixelStorei
  | TexImage2D
  | TexParameteri

datatype js_error = Thrown string | TypeError

datatype alert = CompileAlert string | LinkAlert

text \<open>
  What the browser answers during initialisation: whether \<open>getContext("webgl")\<close> and
  \<open>getExtension("OES_texture_float")\<close> return an object, the size of the canvas, the
  compile status of the shader in a script element and the link status of the program
  made of two of them.  Passing \<open>null\<close> to \<open>gl.attachShader\<close> raises a \<open>TypeError\<close> in
  browsers that follow the current interface definition and only records a GL error in
  older ones: \<open>null_shader_throws\<close> tells which.
\<close>

record browser =
  context_available :: bool
  float_textures :: bool
  canvas_width :: int
  canvas_height :: int
  compiles :: "string \<Rightarrow> bool"
  links :: "string \<Rightarrow> string \<Rightarrow> bool"
  null_shader_throws :: bool

text \<open>
  \<open>ShaderProgram\<close>.  \<open>vs\<close> and \<open>fs\<close> tell whether the shader objects are not \<open>null\<close>,
  \<open>linked\<close> whether the program linked (it is deleted otherwise; it cannot link when
  a shader did not compile).  A location is registered as \<open>null\<close> when the program did
  not link.  The four script elements that \<open>_initShaders\<close> names exist in the page.
\<close>

record shader_program =
  program :: program
  vs :: bool
  fs :: bool
  linked :: bool
  attributes :: "string \<rightharpoonup> location option"
  uniforms :: "string \<rightharpoonup> location option"

definition createShader :: "browser \<Rightarrow> string \<Rightarrow> bool \<times> alert list" where
  "createShader env shaderId =
     (if \<not> compiles env shaderId then (False, [CompileAlert shaderId]) else (True, []))"

definition ShaderProgram ::
  "browser \<Rightarrow> string \<Rightarrow> string \<Rightarrow> (js_error + shader_program) \<times> alert list" where
  "ShaderProgram env vertShaderId fragShaderId =
     (let v = createShader env vertShaderId;
          f = createShader env fragShaderId
      in if (\<not> fst v \<or> \<not> fst f) \<and> null_shader_throws env
         then (Inl TypeError, snd v @ snd f)
         else
           (let status = (fst v \<and> fst f \<and> links env vertShaderId fragShaderId)
            in (Inr \<lparr>program = (vertShaderId, fragShaderId), vs = fst v, fs = fst f,
                     linked = status, attributes = Map.empty, uniforms = Map.empty\<rparr>,
                snd v @ snd f @ (if \<not> status then [LinkAlert] else []))))"

definition registerAttribute :: "shader_program \<Rightarrow> string \<Rightarrow> shader_program" where
  "registerAttribute p name =
     p\<lparr>attributes := (attributes p)(name \<mapsto> (if linked p then Some (program p, name) else None))\<rparr>"

definition registerUniform :: "shader_program \<Rightarrow> string \<Rightarrow> shader_program" where
  "registerUniform p name =
     p\<lparr>uniforms := (uniforms p)(name \<mapsto> (if linked p then Some (program p, name) else None))\<rparr>"

text \<open>
  \<open>setUniformMatrix\<close>, \<open>setUniformInt\<close> and \<open>setUniformFloat\<close>: the call goes to
  \<open>this.uniforms[name]\<close>, which is \<open>undefined\<close> for a name that was not registered.
\<close>

definition setUniform :: "shader_program \<Rightarrow> string \<Rightarrow> uniform_value \<Rightarrow> gl_call" where
  "setUniform p name val =
     Uniform (case uniforms p name of None \<Rightarrow> None | Some l \<Rightarrow> l) val"

text \<open>\<open>VolumeCubeDomain\<close>: the fields the constructor computes from its arguments.\<close>

record volume_cube_domain =
  sliceWidth :: int
  sliceHeight :: int
  slices :: int
  slicesPerRow :: int
  cubeDimensions :: cube_dimensions

definition VolumeCubeDomain :: "int \<Rightarrow> int \<Rightarrow> int \<Rightarrow> int \<Rightarrow> volume_cube_domain" where
  "VolumeCubeDomain sliceWidth' sliceHeight' slices' slicesPerRow' =
     (let cubeWidth = Finite 1;
          cubeHeight = js_div sliceHeight' sliceWidth';
          cubeDepth = js_div slices' sliceWidth'
      in \<lparr>sliceWidth = sliceWidth', sliceHeight = sliceHeight', slices = slices',
          slicesPerRow = slicesPerRow',
          cubeDimensions = Dimensions cubeWidth cubeHeight cubeDepth\<rparr>)"

text \<open>The render methods of the cube and of the full-screen quad.\<close>

definition cube_render :: "location option \<Rightarrow> gl_call list" where
  "cube_render vertexPositionAttribute =
     [BindArrayBuffer Cube, VertexAttribPointer vertexPositionAttribute,
      BindElementBuffer Cube, DrawElements 36]"

definition quad_render :: "location option \<Rightarrow> gl_call list" where
  "quad_render vertexPositionAttribute =
     [BindArrayBuffer Quad, VertexAttribPointer vertexPositionAttribute, DrawArrays 4]"

text \<open>The methods \<open>attach\<close>, \<open>detach\<close> and \<open>bindAsTexture\<close> of a \<open>FrameBuffer\<close>.\<close>

definition attach :: "target \<Rightarrow> gl_call list" where
  "attach t = [BindFramebuffer (Some t)]"

definition detach :: "gl_call list" where
  "detach = [BindTexture None, BindRenderbuffer, BindFramebuffer None]"

definition bindAsTexture :: "target \<Rightarrow> gl_call list" where
  "bindAsTexture t = [BindTexture (Some (TargetTexture t))]"

text \<open>
  The fields of a \<open>VolumeRenderer\<close>, with the alerts shown and the errors written to
  the console.  \<open>gl\<close> holds the viewport size of the context.
\<close>

record gl_context =
  viewportWidth :: int
  viewportHeight :: int

record volume_texture =
  isLoaded :: bool
  image_src :: string

record renderer =
  gl :: "gl_context option"
  canvas :: bool
  anim :: "real option"
  framebuffers :: "target set"
  textures_volume :: "volume_texture option"
  shaders_entryExitPoints :: "shader_program option"
  shaders_volume :: "shader_program option"
  domainCube :: "volume_cube_domain option"
  viewportQuad :: bool
  alerts :: "alert list"
  console :: "js_error list"

definition VolumeRenderer :: renderer where
  "VolumeRenderer =
     \<lparr>gl = None, canvas = False, anim = None, framebuffers = {}, textures_volume = None,
      shaders_entryExitPoints = None, shaders_volume = None, domainCube = None,
      viewportQuad = False, alerts = [], console = []\<rparr>"

definition initShaders :: "browser \<Rightarrow> renderer \<Rightarrow> js_error option \<times> renderer" where
  "initShaders env r =
     (if gl r = None then (None, r)
      else
        (case ShaderProgram env ''entry-exitpoints-vs'' ''entry-exitpoints-fs'' of
           (Inl e, shown) \<Rightarrow> (Some e, r\<lparr>alerts := alerts r @ shown\<rparr>)
         | (Inr p, shown) \<Rightarrow>
             (let p = registerAttribute p ''aVertexPosition'';
                  p = registerUniform p ''uModelViewMatrix'';
                  p = registerUniform p ''uProjectionMatrix'';
                  r = r\<lparr>alerts := alerts r @ shown, shaders_entryExitPoints := Some p\<rparr>
              in case ShaderProgram env ''volume-vs'' ''volume-fs'' of
                   (Inl e, shown) \<Rightarrow> (Some e, r\<lparr>alerts := alerts r @ shown\<rparr>)
                 | (Inr p, shown) \<Rightarrow>
                     (let p = registerAttribute p ''aVertexPosition'';
                          p = registerUniform p ''uEntryPointsSampler'';
                          p = registerUniform p ''uExitPointsSampler'';
                          p = registerUniform p ''uVolumeTexture'';
                          p = registerUniform p ''uNumSlices'';
                          p = registerUniform p ''uSlicesPerRow'';
                          p = registerUniform p ''uSliceWidth'';
                          p = registerUniform p ''uSliceHeight''
                      in (None, r\<lparr>alerts := alerts r @ shown, shaders_volume := Some p\<rparr>)))))"

definition initFramebuffers :: "renderer \<Rightarrow> renderer" where
  "initFramebuffers r = r\<lparr>framebuffers := insert Entrypoints (insert Exitpoints (framebuffers r))\<rparr>"

text \<open>The \<open>try\<close> block of \<open>initGL\<close>: the exception it raises, if any, and the fields then.\<close>

definition initGL_try :: "browser \<Rightarrow> renderer \<Rightarrow> js_error option \<times> renderer" where
  "initGL_try env r =
     (let r = r\<lparr>canvas := True,
                gl := (if context_available env
                       then Some \<lparr>viewportWidth = 0, viewportHeight = 0\<rparr> else None)\<rparr>
      in if gl r = None then (Some (Thrown ''Couldn't get a WebGL context''), r)
         else
           (let r = r\<lparr>gl := Some \<lparr>viewportWidth = canvas_width env,
                                  viewportHeight = canvas_height env\<rparr>,
                      anim := Some 0\<rparr>
            in if \<not> float_textures env
               then (Some (Thrown ''Your device does not support float textres!''), r)
               else
                 (case initShaders env r of
                    (Some e, r) \<Rightarrow> (Some e, r)
                  | (None, r) \<Rightarrow> (None, (initFramebuffers r)\<lparr>viewportQuad := True\<rparr>))))"

definition initGL :: "browser \<Rightarrow> renderer \<Rightarrow> bool \<times> renderer" where
  "initGL env r =
     (case initGL_try env r of
        (Some e, r) \<Rightarrow>
          (let r = r\<lparr>canvas := False, gl := None, console := console r @ [e]\<rparr>
           in (gl r \<noteq> None, r))
      | (None, r) \<Rightarrow> (gl r \<noteq> None, r))"

text \<open>
  \<open>initVolumeGeometry\<close>.  The image loads later; its \<open>onload\<close> callback is
  \<open>volume_onload\<close>, whose first four arguments are the variables the closure captures
  and whose next two are the pixel size of the loaded image.
\<close>

definition initVolumeGeometry ::
  "renderer \<Rightarrow> string \<Rightarrow> int \<Rightarrow> int \<Rightarrow> int \<Rightarrow> int \<Rightarrow> renderer" where
  "initVolumeGeometry r volumeTexture sliceWidth' sliceHeight' slices' slicesPerRow' =
     (if gl r = None then r
      else r\<lparr>domainCube :=
                Some (VolumeCubeDomain sliceWidth' sliceHeight' slices' slicesPerRow'),
              textures_volume := Some \<lparr>isLoaded = False, image_src = volumeTexture\<rparr>\<rparr>)"

text \<open>
  A sequence of statements: the exception that ended it, if any, and the WebGL calls made
  until then.
\<close>

type_synonym block = "js_error option \<times> gl_call list"

fun run :: "block list \<Rightarrow> block" where
  "run [] = (None, [])"
| "run ((Some e, calls) # bs) = (Some e, calls)"
| "run ((None, calls) # bs) = (fst (run bs), calls @ snd (run bs))"

definition volume_onload ::
  "int \<Rightarrow> int \<Rightarrow> int \<Rightarrow> int \<Rightarrow> int \<Rightarrow> int \<Rightarrow> renderer \<Rightarrow> block \<times> renderer" where
  "volume_onload sliceWidth' sliceHeight' slices' slicesPerRow' image_width image_height r =
     (let r = r\<lparr>textures_volume :=
                   map_option (\<lambda>t. t\<lparr>isLoaded := True\<rparr>) (textures_volume r)\<rparr>
      in (run [(None, [BindTexture (Some VolumeTexture), PixelStorei, TexImage2D,
                       TexParameteri, TexParameteri, TexParameteri, TexParameteri,
                       BindTexture None]),
               (case shaders_volume r of
                  None \<Rightarrow> (Some TypeError, [])
                | Some p \<Rightarrow>
                    (None,
                     [setUniform p ''uNumSlices'' (IntValue slices'),
                      setUniform p ''uSlicesPerRow'' (IntValue slicesPerRow'),
                      setUniform p ''uSliceWidth'' (FloatValue (js_div sliceWidth' image_width)),
                      setUniform p ''uSliceHeight''
                        (FloatValue (js_div sliceHeight' image_height))]))],
          r))"

definition setMatrices :: "renderer \<Rightarrow> shader_program \<Rightarrow> block" where
  "setMatrices r p =
     (case anim r of
        None \<Rightarrow> (Some TypeError, [])
      | Some angle \<Rightarrow>
          (case domainCube r of
             None \<Rightarrow> (Some TypeError, [])
           | Some cube \<Rightarrow>
               (case gl r of
                  None \<Rightarrow> (Some TypeError, [])
                | Some g \<Rightarrow>
                    (None,
                     [setUniform p ''uProjectionMatrix''
                        (MatrixValue (Projection (js_div (viewportWidth g) (viewportHeight g)))),
                      setUniform p ''uModelViewMatrix''
                        (MatrixValue (ModelView angle (cubeDimensions cube)))]))))"

definition update :: "renderer \<Rightarrow> int \<Rightarrow> js_error option \<times> renderer" where
  "update r elapsed =
     (case anim r of
        None \<Rightarrow> (Some TypeError, r)
      | Some angle \<Rightarrow> (None, r\<lparr>anim := Some (angle + of_int elapsed / 1000)\<rparr>))"

text \<open>
  The pieces of \<open>draw\<close>: a method call on an object that may be missing raises a
  \<open>TypeError\<close>.
\<close>

definition use :: "shader_program option \<Rightarrow> block" where
  "use p = (case p of None \<Rightarrow> (Some TypeError, []) | Some p \<Rightarrow> (None, [UseProgram (program p)]))"

definition on_framebuffer :: "renderer \<Rightarrow> target \<Rightarrow> gl_call list \<Rightarrow> block" where
  "on_framebuffer r t calls = (if t \<in> framebuffers r then (None, calls) else (Some TypeError, []))"

definition aVertexPosition :: "shader_program \<Rightarrow> location option" where
  "aVertexPosition p = (case attributes p ''aVertexPosition'' of None \<Rightarrow> None | Some l \<Rightarrow> l)"

definition domainCube_render :: "renderer \<Rightarrow> location option \<Rightarrow> block" where
  "domainCube_render r a =
     (case domainCube r of None \<Rightarrow> (Some TypeError, []) | Some cube \<Rightarrow> (None, cube_render a))"

definition draw :: "renderer \<Rightarrow> block" where
  "draw r =
     (if gl r = None then (None, [])
      else
        run [use (shaders_entryExitPoints r),
             (case shaders_entryExitPoints r of
                None \<Rightarrow> (Some TypeError, [])
              | Some prog \<Rightarrow>
                  run [setMatrices r prog,
                       (None, [ClearColor 0 0 0 0, EnableVertexAttribArray 0, EnableDepthTest]),
                       on_framebuffer r Exitpoints (attach Exitpoints),
                       (None, [DepthFunc GREATER, ClearDepth (- 1), Clear]),
                       domainCube_render r (aVertexPosition prog),
                       on_framebuffer r Exitpoints detach,
                       (None, [DepthFunc LESS, ClearDepth 1]),
                       on_framebuffer r Entrypoints (attach Entrypoints),
                       (None, [Clear]),
                       domainCube_render r (aVertexPosition prog),
                       on_framebuffer r Entrypoints detach]),
             use (shaders_volume r),
             (case shaders_volume r of
                None \<Rightarrow> (Some TypeError, [])
              | Some prog \<Rightarrow>
                  run [(None, [DepthFunc GREATER, ClearDepth (- 1), Clear, ActiveTexture 0]),
                       on_framebuffer r Entrypoints (bindAsTexture Entrypoints),
                       (None, [ActiveTexture 1]),
                       on_framebuffer r Exitpoints (bindAsTexture Exitpoints),
                       (None, [setUniform prog ''uEntryPointsSampler'' (IntValue 0),
                               setUniform prog ''uExitPointsSampler'' (IntValue 1)]),
                       (case textures_volume r of
                          None \<Rightarrow> (Some TypeError, [])
                        | Some t \<Rightarrow>
                            (None,
                             if isLoaded t
                             then [ActiveTexture 2, BindTexture (Some VolumeTexture),
                                   setUniform prog ''uVolumeTexture'' (IntValue 2)]
                             else [])),
                       (if viewportQuad r then (None, quad_render None)
                        else (Some TypeError, []))])])"

text \<open>
  The passes of a sequence of WebGL calls: one for each draw call, with the state the
  calls before it have set.  A uniform is set in the program in use, when the location
  belongs to it.  \<open>pass_clear_depth\<close> is the value passed to \<open>gl.clearDepth\<close> with which
  the bound framebuffer was last cleared (WebGL clamps it to \<open>[0,1]\<close> when it clears).
\<close>

record gl_state =
  current_program :: "program option"
  bound_framebuffer :: "target option"
  depth_function :: depth_func
  depth_clear_value :: real
  array_buffer :: "mesh option"
  cleared_depth :: "target option \<Rightarrow> real option"
  uniform_values :: "location \<Rightarrow> uniform_value option"

record pass =
  pass_target :: "target option"
  pass_program :: "program option"
  pass_mesh :: "mesh option"
  pass_depth_func :: depth_func
  pass_clear_depth :: "real option"
  pass_modelView :: "uniform_value option"
  pass_projection :: "uniform_value option"

fun exec :: "gl_call \<Rightarrow> gl_state \<Rightarrow> gl_state" where
  "exec (UseProgram p) g = g\<lparr>current_program := Some p\<rparr>"
| "exec (Uniform (Some l) val) g =
     (if current_program g = Some (fst l)
      then g\<lparr>uniform_values := (uniform_values g)(l := Some val)\<rparr> else g)"
| "exec (BindFramebuffer t) g = g\<lparr>bound_framebuffer := t\<rparr>"
| "exec (DepthFunc f) g = g\<lparr>depth_function := f\<rparr>"
| "exec (ClearDepth d) g = g\<lparr>depth_clear_value := d\<rparr>"
| "exec Clear g =
     g\<lparr>cleared_depth := (cleared_depth g)(bound_framebuffer g := Some (depth_clear_value g))\<rparr>"
| "exec (BindArrayBuffer m) g = g\<lparr>array_buffer := Some m\<rparr>"
| "exec c g = g"

definition uniform_in_use :: "gl_state \<Rightarrow> string \<Rightarrow> uniform_value option" where
  "uniform_in_use g name =
     (case current_program g of None \<Rightarrow> None | Some p \<Rightarrow> uniform_values g (p, name))"

definition snapshot :: "gl_state \<Rightarrow> pass" where
  "snapshot g =
     \<lparr>pass_target = bound_framebuffer g, pass_program = current_program g,
      pass_mesh = array_buffer g, pass_depth_func = depth_function g,
      pass_clear_depth = cleared_depth g (bound_framebuffer g),
      pass_modelView = uniform_in_use g ''uModelViewMatrix'',
      pass_projection = uniform_in_use g ''uProjectionMatrix''\<rparr>"

fun is_draw_call :: "gl_call \<Rightarrow> bool" where
  "is_draw_call (DrawElements n) = True"
| "is_draw_call (DrawArrays n) = True"
| "is_draw_call c = False"

fun passes :: "gl_call list \<Rightarrow> gl_state \<Rightarrow> pass list" where
  "passes [] g = []"
| "passes (c # calls) g =
     (if is_draw_call c then snapshot g # passes calls g else passes calls (exec c g))"

text \<open>
  \<open>gl_ready\<close>: a renderer on which \<open>initGL\<close> has succeeded with both programs linked.
  \<open>initialised\<close>: \<open>initVolumeGeometry\<close> has been called as well, as \<open>main\<close> of the page
  does before the first frame.
\<close>

definition registered :: "shader_program \<Rightarrow> string \<Rightarrow> bool" where
  "registered p name = (uniforms p name = Some (Some (program p, name)))"

definition gl_ready :: "renderer \<Rightarrow> bool" where
  "gl_ready r =
     (gl r \<noteq> None \<and> anim r \<noteq> None \<and> Exitpoints \<in> framebuffers r
      \<and> Entrypoints \<in> framebuffers r \<and> viewportQuad r
      \<and> (case shaders_entryExitPoints r of
            None \<Rightarrow> False
          | Some p \<Rightarrow>
              program p = (''entry-exitpoints-vs'', ''entry-exitpoints-fs'')
              \<and> registered p ''uModelViewMatrix'' \<and> registered p ''uProjectionMatrix'')
      \<and> (case shaders_volume r of
            None \<Rightarrow> False
          | Some p \<Rightarrow>
              program p = (''volume-vs'', ''volume-fs'')
              \<and> registered p ''uEntryPointsSampler'' \<and> registered p ''uExitPointsSampler''
              \<and> registered p ''uVolumeTexture''
              \<and> registered p ''uNumSlices'' \<and> registered p ''uSlicesPerRow''
              \<and> registered p ''uSliceWidth'' \<and> registered p ''uSliceHeight''))"

definition initialised :: "renderer \<Rightarrow> bool" where
  "initialised r = (gl_ready r \<and> domainCube r \<noteq> None \<and> textures_volume r \<noteq> None)"

text \<open>The value most recently passed for a uniform in a sequence of calls.\<close>

fun uniform_passed :: "location \<Rightarrow> gl_call list \<Rightarrow> uniform_value option" where
  "uniform_passed l [] = None"
| "uniform_passed l (Uniform l' val # calls) =
     (case uniform_passed l calls of
        Some later \<Rightarrow> Some later
      | None \<Rightarrow> (if l' = Some l then Some val else None))"
| "uniform_passed l (c # calls) = uniform_passed l calls"


section \<open>Example inputs\<close>

text \<open>The atlas of the demo page: 114 slices, 11 per row.\<close>

definition atlas_uniforms :: volume_uniforms where
  "atlas_uniforms = \<lparr>uNumSlices = 114, uSlicesPerRow = 11, uSliceWidth = 1 / 11, uSliceHeight = 1 / 11\<rparr>"

text \<open>
  A four-slice atlas, two slices per row, whose tiles hold the constant intensities
  0.2, 0.8, 0.4 and 0.6.
\<close>

definition four_slice_uniforms :: volume_uniforms where
  "four_slice_uniforms =
     \<lparr>uNumSlices = 4, uSlicesPerRow = 2, uSliceWidth = 1 / 2, uSliceHeight = 1 / 2\<rparr>"

definition four_slice_atlas :: sampler where
  "four_slice_atlas uv =
     (case uv of
        None \<Rightarrow> 0
      | Some (x, y) \<Rightarrow>
          if y < 1 / 2 then (if x < 1 / 2 then 0.2 else 0.8)
          else (if x < 1 / 2 then 0.4 else 0.6))"

text \<open>A volume of constant intensity 1.\<close>

definition full_volume :: sampler where
  "full_volume uv = 1"

text \<open>
  A volume of constant intensity whose absorption is \<open>ln 50 / 4\<close>: each step multiplies
  the transparency \<open>1 - alpha\<close> by \<open>q50\<close>, the tenth root of 1/50.
\<close>

definition boundary_volume :: sampler where
  "boundary_volume uv = (ln 50 / 4) powr (10 / 11)"

definition q50 :: real where "q50 = exp (- (ln 50 / 10))"

text \<open>
  A render target that holds the clear colour only, and one that holds a point of the
  back face of the cube everywhere.
\<close>

definition cleared_target :: "vec2 \<Rightarrow> vec4" where
  "cleared_target uv = Vec4 0 0 0 0"

definition back_face_target :: "vec2 \<Rightarrow> vec4" where
  "back_face_target uv = Vec4 (1 / 2) (1 / 2) 1 1"

text \<open>
  A browser in which everything succeeds, with the canvas of the demo page, and one in
  which both shaders of the volume program compile but the program does not link.
\<close>

definition demo_browser :: browser where
  "demo_browser =
     \<lparr>context_available = True, float_textures = True, canvas_width = 500,
      canvas_height = 500, compiles = (\<lambda>shaderId. True), links = (\<lambda>v f. True),
      null_shader_throws = True\<rparr>"

definition link_failure_browser :: browser where
  "link_failure_browser = demo_browser\<lparr>links := (\<lambda>v f. v \<noteq> ''volume-vs'')\<rparr>"

text \<open>
  The renderer as \<open>main\<close> of the page sets it up, the state of a fresh WebGL context,
  and a renderer given one slice and zero slices per row.
\<close>

definition demo_renderer :: renderer where
  "demo_renderer =
     initVolumeGeometry (snd (initGL demo_browser VolumeRenderer)) ''tex.png'' 128 128 114 11"

definition initial_gl_state :: gl_state where
  "initial_gl_state =
     \<lparr>current_program = None, bound_framebuffer = None, depth_function = LESS,
      depth_clear_value = 1, array_buffer = None, cleared_depth = (\<lambda>t. None),
      uniform_values = (\<lambda>l. None)\<rparr>"

definition degenerate_renderer :: renderer where
  "degenerate_renderer =
     initVolumeGeometry (snd (initGL demo_browser VolumeRenderer)) ''tex.png'' 128 128 1 0"


section \<open>Properties of the atlas addressing\<close>

lemma row_bound:
  assumes "1 \<le> (p::int)" "0 \<le> i" "i \<le> n - 1"
  shows "i div p < \<lceil>of_int n / (of_int p :: real)\<rceil>"
proof -
  have "i div p \<le> (n - 1) div p" using assms by (simp add: zdiv_mono1)
  also have "(n - 1) div p < \<lceil>of_int n / (of_int p :: real)\<rceil>"
  proof -
    have "p * ((n - 1) div p) + (n - 1) mod p = n - 1" by (rule mult_div_mod_eq)
    moreover have "0 \<le> (n - 1) mod p" using assms(1) by simp
    ultimately have "p * ((n - 1) div p) < n" by linarith
    then have "((n - 1) div p) * p < n" by (simp only: mult.commute)
    then have "real_of_int (((n - 1) div p) * p) < of_int n" by (simp only: of_int_less_iff)
    then have "real_of_int ((n - 1) div p) < of_int n / of_int p"
      using assms(1) by (simp add: pos_less_divide_eq)
    then show ?thesis by (simp add: less_ceiling_iff)
  qed
  finally show ?thesis .
qed

lemma slice_index_bounds:
  assumes "2 \<le> (n::int)" "0 \<le> (z::real)" "z \<le> 1"
  shows "0 \<le> \<lfloor>z * of_int (n - 1)\<rfloor>" "\<lfloor>z * of_int (n - 1)\<rfloor> \<le> \<lceil>z * of_int (n - 1)\<rceil>"
        "\<lceil>z * of_int (n - 1)\<rceil> \<le> n - 1"
proof -
  have n1: "0 \<le> real_of_int (n - 1)" using assms(1) by simp
  show "0 \<le> \<lfloor>z * of_int (n - 1)\<rfloor>" using assms(2) n1 by simp
  show "\<lfloor>z * of_int (n - 1)\<rfloor> \<le> \<lceil>z * of_int (n - 1)\<rceil>" by (rule floor_le_ceiling)
  have "z * of_int (n - 1) \<le> 1 * of_int (n - 1)"
    using assms(3) n1 by (rule mult_right_mono)
  then have "z * of_int (n - 1) \<le> of_int (n - 1)" by simp
  then show "\<lceil>z * of_int (n - 1)\<rceil> \<le> n - 1" by (rule ceiling_le)
qed

lemma glsl_mod_of_int:
  "j \<noteq> 0 \<Longrightarrow> glsl_mod (of_int i) (of_int j) = Some (of_int (i mod j))"
proof -
  assume "j \<noteq> 0"
  have "real_of_int (i mod j) = of_int i - of_int j * of_int (i div j)"
    by (simp add: minus_mult_div_eq_mod [symmetric])
  then show ?thesis
    using \<open>j \<noteq> 0\<close> by (simp add: glsl_mod_def floor_divide_of_int_eq)
qed

lemma glsl_idiv_nonneg:
  "0 \<le> i \<Longrightarrow> 1 \<le> j \<Longrightarrow> glsl_idiv i j = Some (i div j)"
  by (cases "i = 0") (simp_all add: glsl_idiv_def)

lemma tileOrigin_nonneg:
  assumes "1 \<le> uSlicesPerRow u" "0 \<le> i"
  shows "tileOrigin u (of_int i) = Some (of_int (i mod uSlicesPerRow u), of_int (i div uSlicesPerRow u))"
  using assms
  by (simp add: tileOrigin_def glsl_mod_of_int glsl_idiv_nonneg glsl_int_def)

lemma tileOrigin_zero_per_row: "uSlicesPerRow u = 0 \<Longrightarrow> tileOrigin u slice = None"
  by (simp add: tileOrigin_def glsl_mod_def)

lemma floor_eq_ceiling_iff: "(\<lfloor>s::real\<rfloor> = \<lceil>s\<rceil>) = (s \<in> \<int>)"
  by (metis Ints_cases Ints_of_int ceiling_of_int floor_of_int ceiling_altdef zle_add1_eq_le
      le_less not_less zless_add1_eq order_refl)

lemma sampleVolume_cases:
  "sampleVolume tex u pos =
     (let s = vz pos * of_int (uNumSlices u - 1) in
      if \<lfloor>s\<rfloor> = \<lceil>s\<rceil> then tex (sliceUV u (of_int \<lfloor>s\<rfloor>) pos)
      else tex (sliceUV u (of_int \<lfloor>s\<rfloor>) pos) * (of_int \<lceil>s\<rceil> - s)
         + tex (sliceUV u (of_int \<lceil>s\<rceil>) pos) * (1 - (of_int \<lceil>s\<rceil> - s)))"
  by (simp add: sampleVolume_def Let_def)

text \<open>
  Claim C5.  For \<open>uNumSlices \<ge> 2\<close>, \<open>uSlicesPerRow \<ge> 1\<close> and \<open>pos.z\<close> in \<open>[0,1]\<close>,
  each of the slice indices \<open>floor(pos.z * (uNumSlices - 1))\<close>,
  \<open>ceil(pos.z * (uNumSlices - 1))\<close> and \<open>uNumSlices - 1\<close> lies in \<open>[0, uNumSlices - 1]\<close>,
  and its tile origin is (index mod uSlicesPerRow, index div uSlicesPerRow), a cell of the
  grid \<open>[0, uSlicesPerRow) \<times> [0, ceil(uNumSlices / uSlicesPerRow))\<close>.
\<close>

theorem tile_origin_in_grid:
  assumes "2 \<le> uNumSlices u" and "1 \<le> uSlicesPerRow u"
    and "0 \<le> vz pos" and "vz pos \<le> 1"
    and "i = \<lfloor>vz pos * of_int (uNumSlices u - 1)\<rfloor>
       \<or> i = \<lceil>vz pos * of_int (uNumSlices u - 1)\<rceil>
       \<or> i = uNumSlices u - 1"
  shows "0 \<le> i \<and> i \<le> uNumSlices u - 1
       \<and> tileOrigin u (of_int i)
           = Some (of_int (i mod uSlicesPerRow u), of_int (i div uSlicesPerRow u))
       \<and> 0 \<le> i mod uSlicesPerRow u \<and> i mod uSlicesPerRow u < uSlicesPerRow u
       \<and> 0 \<le> i div uSlicesPerRow u
       \<and> i div uSlicesPerRow u < \<lceil>of_int (uNumSlices u) / (of_int (uSlicesPerRow u) :: real)\<rceil>"
proof -
  note b = slice_index_bounds [OF assms(1) assms(3) assms(4)]
  have "0 \<le> i \<and> i \<le> uNumSlices u - 1"
    using assms(5)
  proof (elim disjE)
    assume "i = \<lfloor>vz pos * of_int (uNumSlices u - 1)\<rfloor>"
    then show ?thesis using b by linarith
  next
    assume "i = \<lceil>vz pos * of_int (uNumSlices u - 1)\<rceil>"
    then show ?thesis using b by linarith
  next
    assume "i = uNumSlices u - 1"
    then show ?thesis using assms(1) by linarith
  qed
  then have i: "0 \<le> i" "i \<le> uNumSlices u - 1" by simp_all
  have "tileOrigin u (of_int i)
      = Some (of_int (i mod uSlicesPerRow u), of_int (i div uSlicesPerRow u))"
    using assms(2) i(1) by (rule tileOrigin_nonneg)
  moreover have "0 \<le> i mod uSlicesPerRow u" "i mod uSlicesPerRow u < uSlicesPerRow u"
    using assms(2) by simp_all
  moreover have "0 \<le> i div uSlicesPerRow u"
    using assms(2) i(1) by (simp add: pos_imp_zdiv_nonneg_iff)
  moreover have "i div uSlicesPerRow u
      < \<lceil>of_int (uNumSlices u) / (of_int (uSlicesPerRow u) :: real)\<rceil>"
    using assms(2) i by (rule row_bound)
  ultimately show ?thesis using i by simp
qed

theorem tile_origin_in_grid_witness:
  "tileOrigin atlas_uniforms 113 = Some (3, 10)
   \<and> (3::int) < uSlicesPerRow atlas_uniforms
   \<and> (10::int) < \<lceil>of_int (uNumSlices atlas_uniforms) / (of_int (uSlicesPerRow atlas_uniforms) :: real)\<rceil>"
  using tile_origin_in_grid [of atlas_uniforms "Vec3 0 0 1" 113]
  by (simp add: atlas_uniforms_def)

lemma half_next:
  assumes "frac (s::real) = 1 / 2"
  shows "\<lceil>s\<rceil> = \<lfloor>s\<rfloor> + 1" and "of_int \<lceil>s\<rceil> - s = 1 / 2"
proof -
  have s: "s = of_int \<lfloor>s\<rfloor> + 1 / 2" using assms by (simp add: frac_def)
  have "s \<notin> \<int>"
  proof
    assume "s \<in> \<int>"
    then have "frac s = 0" by (simp only: frac_eq_0_iff)
    with assms show False by simp
  qed
  then have "s \<noteq> of_int \<lfloor>s\<rfloor>" by (metis Ints_of_int)
  then show c: "\<lceil>s\<rceil> = \<lfloor>s\<rfloor> + 1" by (simp add: ceiling_altdef)
  show "of_int \<lceil>s\<rceil> - s = 1 / 2" using s unfolding c by simp
qed

text \<open>
  Claim C1.  With \<open>s = pos.z * (uNumSlices - 1)\<close>: \<open>sliceBelow = sliceAbove\<close> exactly when
  \<open>s\<close> is integral, and then \<open>sampleVolume\<close> returns the sample of the slice below alone;
  otherwise it returns \<open>valueBelow * a + valueAbove * (1 - a)\<close> with \<open>a = sliceAbove - s\<close>;
  and when the fractional part of \<open>s\<close> is 1/2 the two slices are adjacent and the result
  is the arithmetic mean of their samples.
\<close>

theorem sampleVolume_interpolates:
  assumes "0 \<le> vz pos" and "vz pos \<le> 1" and "2 \<le> uNumSlices u"
  shows "let s = vz pos * of_int (uNumSlices u - 1);
             valueBelow = tex (sliceUV u (of_int \<lfloor>s\<rfloor>) pos);
             valueAbove = tex (sliceUV u (of_int \<lceil>s\<rceil>) pos);
             a = of_int \<lceil>s\<rceil> - s
         in (\<lfloor>s\<rfloor> = \<lceil>s\<rceil> \<longleftrightarrow> s \<in> \<int>)
          \<and> (\<lfloor>s\<rfloor> = \<lceil>s\<rceil> \<longrightarrow> sampleVolume tex u pos = valueBelow)
          \<and> (\<lfloor>s\<rfloor> \<noteq> \<lceil>s\<rceil> \<longrightarrow>
                sampleVolume tex u pos = valueBelow * a + valueAbove * (1 - a))
          \<and> (frac s = 1 / 2 \<longrightarrow>
                \<lceil>s\<rceil> = \<lfloor>s\<rfloor> + 1 \<and> sampleVolume tex u pos = (valueBelow + valueAbove) / 2)"
proof -
  define s where "s = vz pos * of_int (uNumSlices u - 1)"
  define valueBelow where "valueBelow = tex (sliceUV u (of_int \<lfloor>s\<rfloor>) pos)"
  define valueAbove where "valueAbove = tex (sliceUV u (of_int \<lceil>s\<rceil>) pos)"
  have sv: "sampleVolume tex u pos =
      (if \<lfloor>s\<rfloor> = \<lceil>s\<rceil> then valueBelow
       else valueBelow * (of_int \<lceil>s\<rceil> - s) + valueAbove * (1 - (of_int \<lceil>s\<rceil> - s)))"
    unfolding s_def valueBelow_def valueAbove_def by (simp add: sampleVolume_cases Let_def)
  have 1: "\<lfloor>s\<rfloor> = \<lceil>s\<rceil> \<longleftrightarrow> s \<in> \<int>" by (rule floor_eq_ceiling_iff)
  have 2: "\<lfloor>s\<rfloor> = \<lceil>s\<rceil> \<longrightarrow> sampleVolume tex u pos = valueBelow"
    by (simp add: sv)
  have 3: "\<lfloor>s\<rfloor> \<noteq> \<lceil>s\<rceil> \<longrightarrow>
      sampleVolume tex u pos
        = valueBelow * (of_int \<lceil>s\<rceil> - s) + valueAbove * (1 - (of_int \<lceil>s\<rceil> - s))"
    by (simp add: sv)
  have 4: "frac s = 1 / 2 \<longrightarrow>
      \<lceil>s\<rceil> = \<lfloor>s\<rfloor> + 1 \<and> sampleVolume tex u pos = (valueBelow + valueAbove) / 2"
  proof
    assume h: "frac s = 1 / 2"
    note n = half_next [OF h]
    have "\<lfloor>s\<rfloor> \<noteq> \<lceil>s\<rceil>" using n(1) by simp
    then have "sampleVolume tex u pos = valueBelow * (1 / 2) + valueAbove * (1 - 1 / 2)"
      using 3 by (simp add: n(2))
    then show "\<lceil>s\<rceil> = \<lfloor>s\<rfloor> + 1 \<and> sampleVolume tex u pos = (valueBelow + valueAbove) / 2"
      using n(1) by (simp add: add_divide_distrib)
  qed
  show ?thesis
    unfolding Let_def using 1 2 3 4
    by (simp only: s_def [symmetric] valueBelow_def [symmetric] valueAbove_def [symmetric] simp_thms)
qed

lemma frac_half: "frac (1 / 2 :: real) = 1 / 2"
  by (simp add: frac_def)

theorem sampleVolume_interpolates_witness:
  "sampleVolume four_slice_atlas four_slice_uniforms (Vec3 (1 / 2) (1 / 2) (1 / 3)) = 0.8
   \<and> sampleVolume four_slice_atlas four_slice_uniforms (Vec3 (1 / 2) (1 / 2) (1 / 6)) = 0.5"
  using sampleVolume_interpolates
          [of "Vec3 (1 / 2) (1 / 2) (1 / 3)" four_slice_uniforms four_slice_atlas]
        sampleVolume_interpolates
          [of "Vec3 (1 / 2) (1 / 2) (1 / 6)" four_slice_uniforms four_slice_atlas]
  by (simp add: four_slice_uniforms_def four_slice_atlas_def Let_def frac_half
        sliceUV_def tileOrigin_def glsl_mod_def glsl_idiv_def glsl_int_def)


section \<open>Properties of the ray integrator\<close>

lemma integrate_states_nonempty [simp]: "integrate_states tex u e v th n s \<noteq> []"
  by (cases n) simp_all

lemma integrate_states_hd [simp]: "hd (integrate_states tex u e v th n s) = s"
  by (cases n) simp_all

lemma integrate_loop_last:
  "integrate_loop tex u e v th n s = fst (last (integrate_states tex u e v th n s))"
  by (induction n arbitrary: s) simp_all

lemma integrate_states_length: "length (integrate_states tex u e v th n s) \<le> Suc n"
  by (induction n arbitrary: s) simp_all

lemma vlength_zero_iff: "vlength p = 0 \<longleftrightarrow> p = Vec3 0 0 0"
proof -
  have "vx p * vx p + vy p * vy p + vz p * vz p = 0 \<longleftrightarrow> vx p = 0 \<and> vy p = 0 \<and> vz p = 0"
    using sum_power2_eq_zero_iff [of "vx p" "vy p"]
      sum_power2_eq_zero_iff [of "sqrt (vx p * vx p + vy p * vy p)" "vz p"]
    by (auto simp: power2_eq_square add_nonneg_eq_0_iff)
  then show ?thesis by (cases p) (simp add: vlength_def)
qed

lemma normalize_vec3_None_iff: "normalize_vec3 (vsub q p) = None \<longleftrightarrow> p = q"
  by (cases p; cases q) (auto simp: normalize_vec3_def vlength_zero_iff vsub_def)

lemma integrateVolume_unspecified:
  "integrateVolume tex u p p = None" "integrateVolume_states tex u p p = None"
  using normalize_vec3_None_iff [of p p]
  by (simp_all add: integrateVolume_def integrateVolume_states_def Let_def)

lemma integrateVolume_last:
  assumes "integrateVolume_states tex u entryPoint exitPoint = Some xs"
  shows "integrateVolume tex u entryPoint exitPoint = Some (fst (last xs))"
  using assms
  by (auto simp: integrateVolume_def integrateVolume_states_def ray_states_def Let_def
      integrate_loop_last split: option.splits)

lemma integrateVolume_states_defined:
  assumes "entryPoint \<noteq> exitPoint"
  shows "\<exists>vector. integrateVolume_states tex u entryPoint exitPoint
           = Some (ray_states tex u entryPoint vector (vlength (vsub exitPoint entryPoint)))"
  using assms normalize_vec3_None_iff [of exitPoint entryPoint]
  by (cases "normalize_vec3 (vsub exitPoint entryPoint)")
     (auto simp: integrateVolume_states_def)

lemma tfAbsorbtion_nonneg: "0 \<le> tfAbsorbtion x"
  by (simp add: tfAbsorbtion_def Let_def)

lemma tfOpacity_range: "0 \<le> tfOpacity x \<and> tfOpacity x < 1"
proof -
  have "0 \<le> step * tfAbsorbtion x * 40"
    using tfAbsorbtion_nonneg [of x] by (simp add: step_def)
  then have "exp (- step * tfAbsorbtion x * 40) \<le> 1" by simp
  then show ?thesis by (simp add: tfOpacity_def)
qed

lemma composite_alpha:
  assumes "0 \<le> t" "t < 1" "0 \<le> a" "a \<le> (1::real)"
  shows "a \<le> t * (1 - a) + a" "t * (1 - a) + a \<le> 1"
proof -
  have "0 \<le> t * (1 - a)" using assms by simp
  then show "a \<le> t * (1 - a) + a" by simp
  have "t * (1 - a) \<le> 1 * (1 - a)" using assms by (intro mult_right_mono) simp_all
  then show "t * (1 - a) + a \<le> 1" by simp
qed

lemma loop_body_alpha:
  "ca (fst (loop_body tex u e v s))
     = tfOpacity (sampleVolume tex u (vadd e (vscale v (snd s)))) * (1 - ca (fst s)) + ca (fst s)"
  by (simp add: loop_body_def Let_def)

lemma loop_body_alpha_mono:
  assumes "0 \<le> ca (fst s)" "ca (fst s) \<le> 1"
  shows "ca (fst s) \<le> ca (fst (loop_body tex u e v s))" "ca (fst (loop_body tex u e v s)) \<le> 1"
  using composite_alpha [OF _ _ assms, of "tfOpacity (sampleVolume tex u (vadd e (vscale v (snd s))))"]
    tfOpacity_range [of "sampleVolume tex u (vadd e (vscale v (snd s)))"]
  by (simp_all add: loop_body_alpha)

lemma integrate_states_alpha:
  assumes "0 \<le> ca (fst s)" "ca (fst s) \<le> 1"
  shows "\<forall>t \<in> set (integrate_states tex u e v th n s). ca (fst s) \<le> ca (fst t) \<and> ca (fst t) \<le> 1"
  using assms
proof (induction n arbitrary: s)
  case 0
  then show ?case by simp
next
  case (Suc n)
  note m = loop_body_alpha_mono [OF Suc.prems, of tex u e v]
  have ih: "\<forall>t \<in> set (integrate_states tex u e v th n (loop_body tex u e v s)).
          ca (fst (loop_body tex u e v s)) \<le> ca (fst t) \<and> ca (fst t) \<le> 1"
    using m Suc.prems by (intro Suc.IH) linarith+
  have "ca (fst s) \<le> ca (fst t) \<and> ca (fst t) \<le> 1"
    if "t \<in> set (integrate_states tex u e v th n (loop_body tex u e v s))" for t
  proof -
    have "ca (fst (loop_body tex u e v s)) \<le> ca (fst t) \<and> ca (fst t) \<le> 1"
      using ih that by blast
    then show ?thesis using m(1) by linarith
  qed
  then show ?case using Suc.prems by simp
qed

lemma integrate_states_sorted:
  assumes "0 \<le> ca (fst s)" "ca (fst s) \<le> 1"
  shows "sorted (map (\<lambda>t. ca (fst t)) (integrate_states tex u e v th n s))"
  using assms
proof (induction n arbitrary: s)
  case 0
  then show ?case by simp
next
  case (Suc n)
  note m = loop_body_alpha_mono [OF Suc.prems, of tex u e v]
  have "0 \<le> ca (fst (loop_body tex u e v s))" using m Suc.prems by linarith
  then have "sorted (map (\<lambda>t. ca (fst t)) (integrate_states tex u e v th n (loop_body tex u e v s)))"
    using m by (intro Suc.IH)
  moreover have "\<forall>t \<in> set (integrate_states tex u e v th n (loop_body tex u e v s)).
          ca (fst (loop_body tex u e v s)) \<le> ca (fst t) \<and> ca (fst t) \<le> 1"
    using m \<open>0 \<le> ca (fst (loop_body tex u e v s))\<close> by (intro integrate_states_alpha)
  ultimately show ?case using m by auto
qed

lemma integrate_states_stop:
  assumes "k < length (integrate_states tex u e v th n s)"
    and "loop_break th (integrate_states tex u e v th n s ! k)"
  shows "Suc k = length (integrate_states tex u e v th n s)"
  using assms
proof (induction n arbitrary: s k)
  case 0
  then show ?case by simp
next
  case (Suc n)
  show ?case
  proof (cases "loop_break th s")
    case True
    then show ?thesis using Suc.prems by simp
  next
    case False
    then show ?thesis using Suc.prems Suc.IH [of _ "loop_body tex u e v s"]
      by (cases k) auto
  qed
qed

lemma integrate_states_unfold:
  "0 < n \<Longrightarrow> integrate_states tex u e v th n s =
     (if loop_break th s then [s]
      else s # integrate_states tex u e v th (n - 1) (loop_body tex u e v s))"
  by (cases n) simp_all

lemma integrate_states_Suc_nth:
  assumes "Suc k < length (integrate_states tex u e v th n s)"
  shows "integrate_states tex u e v th n s ! Suc k
           = loop_body tex u e v (integrate_states tex u e v th n s ! k)"
  using assms
proof (induction n arbitrary: s k)
  case 0
  then show ?case by simp
next
  case (Suc n)
  show ?case
  proof (cases "loop_break th s")
    case True
    then show ?thesis using Suc.prems by simp
  next
    case False
    show ?thesis
    proof (cases k)
      case 0
      then show ?thesis using False by (simp add: hd_conv_nth [symmetric])
    next
      case (Suc j)
      then show ?thesis using False Suc.prems Suc.IH [of j "loop_body tex u e v s"] by simp
    qed
  qed
qed

lemma integrate_states_nth:
  assumes "k \<le> n" and "\<forall>j<k. \<not> loop_break th ((loop_body tex u e v ^^ j) s)"
  shows "k < length (integrate_states tex u e v th n s)
       \<and> integrate_states tex u e v th n s ! k = (loop_body tex u e v ^^ k) s"
  using assms
proof (induction k arbitrary: n s)
  case 0
  then show ?case by (simp add: hd_conv_nth [symmetric])
next
  case (Suc k)
  from Suc.prems(1) obtain m where n: "n = Suc m" and km: "k \<le> m" by (cases n) simp_all
  have nb: "\<not> loop_break th s" using Suc.prems(2) by force
  have "\<forall>j<k. \<not> loop_break th ((loop_body tex u e v ^^ j) (loop_body tex u e v s))"
  proof (intro allI impI)
    fix j assume "j < k"
    then have "Suc j < Suc k" by simp
    with Suc.prems(2) have "\<not> loop_break th ((loop_body tex u e v ^^ Suc j) s)" by blast
    then show "\<not> loop_break th ((loop_body tex u e v ^^ j) (loop_body tex u e v s))"
      by (simp add: funpow_swap1)
  qed
  from Suc.IH [OF km this] show ?case using nb n by (simp add: funpow_swap1)
qed

lemma sampleVolume_const: "sampleVolume (\<lambda>uv. c) u pos = c"
  by (simp add: sampleVolume_def Let_def algebra_simps)

lemma sampleVolume_range:
  assumes "unit_range tex"
  shows "0 \<le> sampleVolume tex u pos \<and> sampleVolume tex u pos \<le> 1"
proof -
  define s where "s = vz pos * of_int (uNumSlices u - 1)"
  define a where "a = of_int \<lceil>s\<rceil> - s"
  define b where "b = tex (sliceUV u (of_int \<lfloor>s\<rfloor>) pos)"
  define c where "c = tex (sliceUV u (of_int \<lceil>s\<rceil>) pos)"
  have a: "0 \<le> a" "a \<le> 1" unfolding a_def by linarith+
  have b: "0 \<le> b" "b \<le> 1" and c: "0 \<le> c" "c \<le> 1"
    using assms by (simp_all add: unit_range_def b_def c_def)
  have sv: "sampleVolume tex u pos = (if \<lfloor>s\<rfloor> = \<lceil>s\<rceil> then b else c * (1 - a) + b * a)"
    by (simp add: sampleVolume_def Let_def s_def a_def b_def c_def)
  have "0 \<le> c * (1 - a) + b * a" using a b c by simp
  moreover have "c * (1 - a) + b * a \<le> 1 * (1 - a) + 1 * a"
    using a b c by (intro add_mono mult_right_mono) simp_all
  ultimately show ?thesis using b by (simp add: sv)
qed

lemma ray_states_first [simp]: "ray_states tex u p v th ! 0 = (Vec4 0 0 0 0, 0)"
  by (simp add: ray_states_def hd_conv_nth [symmetric])

lemma ray_states_nonempty [simp]: "ray_states tex u p v th \<noteq> []"
  by (simp add: ray_states_def)

text \<open>
  Claim C2.  Along the loop states of \<open>integrateVolume\<close>, whatever the direction
  \<open>vector\<close> and the thickness it has computed, every execution of the loop body takes
  the state \<open>(color, depth)\<close> to
  \<open>(colorOut, depth + 0.01)\<close>, where, with the sample taken at
  \<open>entryPoint + vector * depth\<close> and
  \<open>stepAlpha = 1 - exp(-(0.01 * tfAbsorbtion sample * 40))\<close>,
  \<open>colorOut.rgb = sampleColor * stepAlpha * (1 - color.a) + color.rgb\<close> and
  \<open>colorOut.a = stepAlpha * (1 - color.a) + color.a\<close>.
\<close>

theorem integration_step:
  assumes "Suc k < length (ray_states tex u entryPoint vector thickness)"
  shows "let color = fst (ray_states tex u entryPoint vector thickness ! k);
             depth = snd (ray_states tex u entryPoint vector thickness ! k);
             colorOut = fst (ray_states tex u entryPoint vector thickness ! Suc k);
             depthOut = snd (ray_states tex u entryPoint vector thickness ! Suc k);
             sample = sampleVolume tex u
                        (vadd entryPoint (vscale vector depth));
             stepAlpha = 1 - exp (- (0.01 * tfAbsorbtion sample * 40))
         in cr colorOut = vx (sampleColor sample) * stepAlpha * (1 - ca color) + cr color
          \<and> cg colorOut = vy (sampleColor sample) * stepAlpha * (1 - ca color) + cg color
          \<and> cb colorOut = vz (sampleColor sample) * stepAlpha * (1 - ca color) + cb color
          \<and> ca colorOut = stepAlpha * (1 - ca color) + ca color
          \<and> depthOut = depth + 0.01"
proof -
  have "ray_states tex u entryPoint vector thickness ! Suc k
      = loop_body tex u entryPoint vector (ray_states tex u entryPoint vector thickness ! k)"
    using assms unfolding ray_states_def by (rule integrate_states_Suc_nth)
  then show ?thesis
    by (simp add: loop_body_def Let_def tfOpacity_def step_def)
qed

lemma full_volume_opacity: "tfOpacity 1 = 1 - exp (- (2 / 5))"
  by (simp add: tfOpacity_def tfAbsorbtion_def step_def)

lemma half_thickness: "vlength (vsub (Vec3 0 0 (1 / 2)) (Vec3 0 0 0)) = 1 / 2"
proof -
  have "sqrt (1 / 2 * (1 / 2)) = \<bar>1 / 2 :: real\<bar>" by (rule real_sqrt_abs2)
  then show ?thesis by (simp add: vlength_def vsub_def)
qed

lemma half_ray:
  "integrateVolume_states tex u (Vec3 0 0 0) (Vec3 0 0 (1 / 2))
     = Some (ray_states tex u (Vec3 0 0 0) (Vec3 0 0 1) (1 / 2))"
proof -
  have "normalize_vec3 (vsub (Vec3 0 0 (1 / 2)) (Vec3 0 0 0)) = Some (Vec3 0 0 1)"
    unfolding normalize_vec3_def half_thickness by (simp add: vsub_def)
  then show ?thesis by (simp add: integrateVolume_states_def half_thickness)
qed

lemma full_volume_two_states:
  "Suc 0 < length (ray_states full_volume atlas_uniforms (Vec3 0 0 0) (Vec3 0 0 1) (1 / 2))"
  unfolding ray_states_def
  by (simp add: integrate_states_unfold loop_break_def)

theorem integration_step_witness:
  "integrateVolume_states full_volume atlas_uniforms (Vec3 0 0 0) (Vec3 0 0 (1 / 2))
     = Some (ray_states full_volume atlas_uniforms (Vec3 0 0 0) (Vec3 0 0 1) (1 / 2))
   \<and> ray_states full_volume atlas_uniforms (Vec3 0 0 0) (Vec3 0 0 1) (1 / 2) ! Suc 0
     = (Vec4 (0.6 * (1 - exp (- (2 / 5)))) (1 - exp (- (2 / 5))) (1 - exp (- (2 / 5)))
             (1 - exp (- (2 / 5))), 0.01)"
proof -
  have s: "sampleVolume full_volume u pos = 1" for u pos
    using sampleVolume_const [of 1 u pos] by (simp add: full_volume_def [abs_def])
  have a: "tfAbsorbtion 1 = 1" by (simp add: tfAbsorbtion_def)
  show ?thesis
    using integration_step [OF full_volume_two_states]
    by (cases "ray_states full_volume atlas_uniforms (Vec3 0 0 0) (Vec3 0 0 1) (1 / 2) ! Suc 0";
        cases "fst (ray_states full_volume atlas_uniforms (Vec3 0 0 0) (Vec3 0 0 1) (1 / 2) ! Suc 0)")
       (simp add: Let_def s a sampleColor_def half_ray)
qed

text \<open>
  Claim C3, as amended.  For every ray with \<open>entryPoint \<noteq> exitPoint\<close> and every volume with
  intensities in \<open>[0,1]\<close>, the loop states of \<open>integrateVolume\<close> are specified and
  \<open>integrateVolume\<close> returns the colour of the last one; the accumulated alpha is
  non-decreasing along them; the loop body runs at most 10000 times; and a state whose
  alpha exceeds 0.98 is the last one, its colour being the result.
\<close>

theorem integration_monotone_capped:
  assumes "unit_range tex" and "entryPoint \<noteq> exitPoint"
  shows "\<exists>xs. integrateVolume_states tex u entryPoint exitPoint = Some xs
          \<and> integrateVolume tex u entryPoint exitPoint = Some (fst (last xs))
          \<and> (\<forall>i j. i \<le> j \<and> j < length xs \<longrightarrow> ca (fst (xs ! i)) \<le> ca (fst (xs ! j)))
          \<and> length xs \<le> 10001
          \<and> (\<forall>k. k < length xs \<and> 0.98 < ca (fst (xs ! k)) \<longrightarrow>
                 Suc k = length xs
                 \<and> integrateVolume tex u entryPoint exitPoint = Some (fst (xs ! k)))"
proof -
  from assms(2) obtain vector where
    s: "integrateVolume_states tex u entryPoint exitPoint
          = Some (ray_states tex u entryPoint vector (vlength (vsub exitPoint entryPoint)))"
    using integrateVolume_states_defined by blast
  let ?th = "vlength (vsub exitPoint entryPoint)"
  let ?xs = "ray_states tex u entryPoint vector ?th"
  have 0: "integrateVolume tex u entryPoint exitPoint = Some (fst (last ?xs))"
    using s by (rule integrateVolume_last)
  have "sorted (map (\<lambda>t. ca (fst t)) ?xs)"
    unfolding ray_states_def by (rule integrate_states_sorted) simp_all
  then have 1: "\<forall>i j. i \<le> j \<and> j < length ?xs \<longrightarrow> ca (fst (?xs ! i)) \<le> ca (fst (?xs ! j))"
    by (auto simp: sorted_iff_nth_mono)
  have 2: "length ?xs \<le> 10001"
    using integrate_states_length [of tex u entryPoint vector ?th 10000 "(Vec4 0 0 0 0, 0)"]
    by (simp add: ray_states_def)
  have 3: "Suc k = length ?xs \<and> integrateVolume tex u entryPoint exitPoint = Some (fst (?xs ! k))"
    if k: "k < length ?xs" and a: "0.98 < ca (fst (?xs ! k))" for k
  proof -
    have "loop_break ?th (?xs ! k)"
      using a by (simp add: loop_break_def)
    then have l: "Suc k = length ?xs"
      using k unfolding ray_states_def by (intro integrate_states_stop)
    then have "last ?xs = ?xs ! k" by (simp add: last_conv_nth [OF ray_states_nonempty] flip: l)
    then show ?thesis using l 0 by simp
  qed
  show ?thesis using s 0 1 2 3 by blast
qed

lemma const_iterate:
  "ca (fst ((loop_body (\<lambda>uv. c) u e d ^^ k) (Vec4 0 0 0 0, 0))) = 1 - (1 - tfOpacity c) ^ k
   \<and> snd ((loop_body (\<lambda>uv. c) u e d ^^ k) (Vec4 0 0 0 0, 0)) = of_nat k * step"
proof (induction k)
  case 0
  then show ?case by simp
next
  case (Suc k)
  define st where "st = (loop_body (\<lambda>uv. c) u e d ^^ k) (Vec4 0 0 0 0, 0)"
  have a: "ca (fst st) = 1 - (1 - tfOpacity c) ^ k" and b: "snd st = of_nat k * step"
    using Suc.IH by (simp_all add: st_def)
  have "ca (fst (loop_body (\<lambda>uv. c) u e d st)) = 1 - (1 - tfOpacity c) ^ Suc k"
    by (simp add: loop_body_alpha sampleVolume_const a algebra_simps)
  moreover have "snd (loop_body (\<lambda>uv. c) u e d st) = of_nat (Suc k) * step"
    by (simp add: loop_body_def Let_def b algebra_simps)
  ultimately show ?case by (simp add: st_def)
qed

lemma exp4_gt_50: "(50::real) < exp 4"
proof -
  have "1 + (1 / 4) + (1 / 4)\<^sup>2 / 2 \<le> exp (1 / 4 :: real)"
    by (rule exp_lower_Taylor_quadratic) simp
  then have "(41 / 32 :: real) \<le> exp (1 / 4)" by (simp add: power2_eq_square)
  then have "(41 / 32 :: real) ^ 16 \<le> exp (1 / 4) ^ 16" by (intro power_mono) simp_all
  also have "exp (1 / 4 :: real) ^ 16 = exp 4"
    using exp_of_nat_mult [of 16 "1 / 4 :: real"] by simp
  finally show ?thesis by (simp add: power_divide)
qed

lemma ln50_bounds: "1 \<le> ln (50::real)" "ln (50::real) \<le> 4"
proof -
  have "exp 1 \<le> (50::real)" using exp_le by simp
  then show "1 \<le> ln (50::real)" by (simp add: ln_ge_iff)
  have "ln (50::real) \<le> ln (exp 4)" using exp4_gt_50 by (subst ln_le_cancel_iff) simp_all
  then show "ln (50::real) \<le> 4" by simp
qed

lemma boundary_value_range:
  "0 \<le> (ln 50 / 4 :: real) powr (10 / 11)" "(ln 50 / 4 :: real) powr (10 / 11) \<le> 1"
proof -
  show "0 \<le> (ln 50 / 4 :: real) powr (10 / 11)" by simp
  have "0 \<le> (ln 50 / 4 :: real)" "(ln 50 / 4 :: real) \<le> 1" using ln50_bounds by simp_all
  then have "(ln 50 / 4 :: real) powr (10 / 11) \<le> 1 powr (10 / 11)"
    by (intro powr_mono2) simp_all
  then show "(ln 50 / 4 :: real) powr (10 / 11) \<le> 1" by simp
qed

lemma boundary_absorbtion: "tfAbsorbtion ((ln 50 / 4) powr (10 / 11)) = ln 50 / 4"
proof -
  have "((ln 50 / 4 :: real) powr (10 / 11)) powr 1.1 = (ln 50 / 4) powr 1"
    by (simp add: powr_powr)
  also have "\<dots> = ln 50 / 4" using ln50_bounds(1) by simp
  finally show ?thesis using ln50_bounds(1) by (simp add: tfAbsorbtion_def Let_def)
qed

lemma boundary_opacity: "1 - tfOpacity ((ln 50 / 4) powr (10 / 11)) = q50"
  by (simp add: tfOpacity_def boundary_absorbtion step_def q50_def)

lemma q50_range: "0 < q50" "q50 < 1"
  using ln50_bounds(1) by (simp_all add: q50_def)

lemma q50_pow10: "q50 ^ 10 = 1 / 50"
proof -
  have "q50 ^ 10 = exp (of_nat 10 * (- (ln 50 / 10)))"
    unfolding q50_def by (rule exp_of_nat_mult [symmetric])
  also have "\<dots> = exp (- ln 50)" by simp
  also have "\<dots> = 1 / 50" by (simp add: exp_minus)
  finally show ?thesis .
qed

lemma boundary_volume_unit: "unit_range boundary_volume"
  using boundary_value_range by (simp add: unit_range_def boundary_volume_def)

lemma boundary_iterate:
  "ca (fst ((loop_body boundary_volume u e d ^^ k) (Vec4 0 0 0 0, 0))) = 1 - q50 ^ k"
  "snd ((loop_body boundary_volume u e d ^^ k) (Vec4 0 0 0 0, 0)) = of_nat k / 100"
  using const_iterate [where c = "(ln 50 / 4) powr (10 / 11)" and u = u and e = e and d = d and k = k]
  by (simp_all add: boundary_volume_def [abs_def] boundary_opacity step_def)

lemma q50_pow_le: "k \<le> 10 \<Longrightarrow> 1 / 50 \<le> q50 ^ k"
  using power_decreasing [of k 10 q50] q50_range by (simp add: q50_pow10)

lemma boundary_no_break:
  assumes "k \<le> 10"
  shows "\<not> loop_break (1 / 2) ((loop_body boundary_volume u e d ^^ k) (Vec4 0 0 0 0, 0))"
  using assms q50_pow_le [OF assms]
  by (simp add: loop_break_def boundary_iterate)

lemma boundary_states:
  assumes "k \<le> 11"
  shows "k < length (ray_states boundary_volume u (Vec3 0 0 0) (Vec3 0 0 1) (1 / 2))"
    and "ray_states boundary_volume u (Vec3 0 0 0) (Vec3 0 0 1) (1 / 2) ! k
          = (loop_body boundary_volume u (Vec3 0 0 0)
               (Vec3 0 0 1) ^^ k) (Vec4 0 0 0 0, 0)"
proof -
  have "k \<le> 10000" using assms by simp
  moreover have "\<forall>j<k. \<not> loop_break (1 / 2)
      ((loop_body boundary_volume u (Vec3 0 0 0)
          (Vec3 0 0 1) ^^ j) (Vec4 0 0 0 0, 0))"
    using assms by (intro allI impI boundary_no_break) simp
  ultimately have "k < length (integrate_states boundary_volume u (Vec3 0 0 0)
            (Vec3 0 0 1) (1 / 2) 10000 (Vec4 0 0 0 0, 0))
       \<and> integrate_states boundary_volume u (Vec3 0 0 0)
            (Vec3 0 0 1) (1 / 2) 10000 (Vec4 0 0 0 0, 0) ! k
          = (loop_body boundary_volume u (Vec3 0 0 0)
               (Vec3 0 0 1) ^^ k) (Vec4 0 0 0 0, 0)"
    by (rule integrate_states_nth)
  then show "k < length (ray_states boundary_volume u (Vec3 0 0 0) (Vec3 0 0 1) (1 / 2))"
    and "ray_states boundary_volume u (Vec3 0 0 0) (Vec3 0 0 1) (1 / 2) ! k
          = (loop_body boundary_volume u (Vec3 0 0 0)
               (Vec3 0 0 1) ^^ k) (Vec4 0 0 0 0, 0)"
    by (simp_all add: ray_states_def)
qed

lemma boundary_alpha:
  "k \<le> 11 \<Longrightarrow> ca (fst (ray_states boundary_volume u (Vec3 0 0 0) (Vec3 0 0 1) (1 / 2) ! k)) = 1 - q50 ^ k"
  by (simp add: boundary_states(2) boundary_iterate)

lemma boundary_alpha_10:
  "ca (fst (ray_states boundary_volume u (Vec3 0 0 0) (Vec3 0 0 1) (1 / 2) ! 10)) = 0.98"
  by (simp add: boundary_alpha q50_pow10)

lemma boundary_alpha_11:
  "0.98 < ca (fst (ray_states boundary_volume u (Vec3 0 0 0) (Vec3 0 0 1) (1 / 2) ! 11))"
proof -
  have "q50 ^ 11 = q50 * q50 ^ 10" by (simp add: numeral_eq_Suc)
  also have "\<dots> < 1 * (1 / 50)" using q50_range unfolding q50_pow10 by simp
  finally show ?thesis by (simp add: boundary_alpha)
qed

theorem integration_monotone_capped_witness:
  "unit_range boundary_volume
   \<and> Vec3 0 0 0 \<noteq> Vec3 0 0 (1 / 2)
   \<and> integrateVolume_states boundary_volume atlas_uniforms (Vec3 0 0 0) (Vec3 0 0 (1 / 2))
       = Some (ray_states boundary_volume atlas_uniforms (Vec3 0 0 0) (Vec3 0 0 1) (1 / 2))
   \<and> ca (fst (ray_states boundary_volume atlas_uniforms (Vec3 0 0 0) (Vec3 0 0 1) (1 / 2) ! 10))
       \<le> ca (fst (ray_states boundary_volume atlas_uniforms (Vec3 0 0 0) (Vec3 0 0 1) (1 / 2) ! 11))
   \<and> 0.98 < ca (fst (ray_states boundary_volume atlas_uniforms (Vec3 0 0 0) (Vec3 0 0 1) (1 / 2) ! 11))
   \<and> length (ray_states boundary_volume atlas_uniforms (Vec3 0 0 0) (Vec3 0 0 1) (1 / 2)) = 12
   \<and> integrateVolume boundary_volume atlas_uniforms (Vec3 0 0 0) (Vec3 0 0 (1 / 2))
       = Some (fst (ray_states boundary_volume atlas_uniforms (Vec3 0 0 0) (Vec3 0 0 1) (1 / 2) ! 11))"
proof -
  let ?xs = "ray_states boundary_volume atlas_uniforms (Vec3 0 0 0) (Vec3 0 0 1) (1 / 2)"
  have d: "Vec3 0 0 0 \<noteq> Vec3 0 0 (1 / 2)" by simp
  note h = half_ray [of boundary_volume atlas_uniforms]
  from integration_monotone_capped [OF boundary_volume_unit d, of atlas_uniforms]
  obtain xs where x: "integrateVolume_states boundary_volume atlas_uniforms (Vec3 0 0 0)
        (Vec3 0 0 (1 / 2)) = Some xs"
    and m: "\<forall>i j. i \<le> j \<and> j < length xs \<longrightarrow> ca (fst (xs ! i)) \<le> ca (fst (xs ! j))"
    and e: "\<forall>k. k < length xs \<and> 0.98 < ca (fst (xs ! k)) \<longrightarrow>
             Suc k = length xs
             \<and> integrateVolume boundary_volume atlas_uniforms (Vec3 0 0 0) (Vec3 0 0 (1 / 2))
                 = Some (fst (xs ! k))"
    by blast
  have xs: "xs = ?xs" using x h by simp
  have l: "11 < length ?xs" by (rule boundary_states(1)) simp
  have a: "0.98 < ca (fst (?xs ! 11))" by (rule boundary_alpha_11)
  have "(10::nat) \<le> 11 \<and> 11 < length ?xs" using l by simp
  with m have m': "ca (fst (?xs ! 10)) \<le> ca (fst (?xs ! 11))" unfolding xs by blast
  from e l a have "Suc 11 = length ?xs
      \<and> integrateVolume boundary_volume atlas_uniforms (Vec3 0 0 0) (Vec3 0 0 (1 / 2))
          = Some (fst (?xs ! 11))"
    unfolding xs by blast
  then show ?thesis using m' a boundary_volume_unit h by simp
qed

text \<open>
  Claim C3 as stated fails in two places.  At the threshold itself, since the test is
  \<open>color.a > 0.98\<close>: for the volume \<open>boundary_volume\<close> the accumulated alpha is exactly 0.98
  after ten steps, the loop runs once more, and the result differs from the colour
  accumulated at that point.  And for \<open>entryPoint = exitPoint\<close>, where the direction and
  with it the loop states and the result are unspecified.
\<close>

theorem integration_stops_at_098_counterexample:
  "unit_range boundary_volume
   \<and> integrateVolume_states boundary_volume atlas_uniforms (Vec3 0 0 0) (Vec3 0 0 (1 / 2))
       = Some (ray_states boundary_volume atlas_uniforms (Vec3 0 0 0) (Vec3 0 0 1) (1 / 2))
   \<and> 10 < length (ray_states boundary_volume atlas_uniforms (Vec3 0 0 0) (Vec3 0 0 1) (1 / 2))
   \<and> ca (fst (ray_states boundary_volume atlas_uniforms (Vec3 0 0 0) (Vec3 0 0 1) (1 / 2) ! 10)) = 0.98
   \<and> Suc 10 \<noteq> length (ray_states boundary_volume atlas_uniforms (Vec3 0 0 0) (Vec3 0 0 1) (1 / 2))
   \<and> integrateVolume boundary_volume atlas_uniforms (Vec3 0 0 0) (Vec3 0 0 (1 / 2))
       \<noteq> Some (fst (ray_states boundary_volume atlas_uniforms (Vec3 0 0 0) (Vec3 0 0 1) (1 / 2) ! 10))
   \<and> integrateVolume_states boundary_volume atlas_uniforms (Vec3 0 0 0) (Vec3 0 0 0) = None
   \<and> integrateVolume boundary_volume atlas_uniforms (Vec3 0 0 0) (Vec3 0 0 0) = None"
proof -
  let ?xs = "ray_states boundary_volume atlas_uniforms (Vec3 0 0 0) (Vec3 0 0 1) (1 / 2)"
  note h = half_ray [of boundary_volume atlas_uniforms]
  have l: "11 < length ?xs" by (rule boundary_states(1)) simp
  then have l10: "10 < length ?xs" and n11: "Suc 10 \<noteq> length ?xs" by linarith+
  have a10: "ca (fst (?xs ! 10)) = 0.98" by (rule boundary_alpha_10)
  have a11: "0.98 < ca (fst (?xs ! 11))" by (rule boundary_alpha_11)
  have "sorted (map (\<lambda>t. ca (fst t)) ?xs)"
    unfolding ray_states_def by (rule integrate_states_sorted) simp_all
  then have c: "ca (fst (?xs ! 11)) \<le> ca (fst (?xs ! (length ?xs - 1)))"
    using l by (simp add: sorted_iff_nth_mono)
  have d: "last ?xs = ?xs ! (length ?xs - 1)"
    by (rule last_conv_nth) (rule ray_states_nonempty)
  have b: "0.98 < ca (fst (last ?xs))"
    unfolding d using c a11 by linarith
  have "fst (last ?xs) \<noteq> fst (?xs ! 10)"
  proof
    assume "fst (last ?xs) = fst (?xs ! 10)"
    then have "ca (fst (last ?xs)) = ca (fst (?xs ! 10))" by (rule arg_cong)
    with a10 b show False by linarith
  qed
  then have r: "integrateVolume boundary_volume atlas_uniforms (Vec3 0 0 0) (Vec3 0 0 (1 / 2))
      \<noteq> Some (fst (?xs ! 10))"
    unfolding integrateVolume_last [OF h] by (simp only: option.inject not_False_eq_True)
  show ?thesis
    by (intro conjI boundary_volume_unit h l10 a10 n11 r integrateVolume_unspecified)
qed

text \<open>
  Claim C10.  For a volume with intensities in \<open>[0,1]\<close>, whatever the direction and the
  thickness of the ray: the accumulated alpha is 0 in the first loop state and lies in
  \<open>[0,1]\<close> in every loop state; every sample lies in
  \<open>[0,1]\<close>; for such a sample the absorption is non-negative and the step alpha
  \<open>1 - exp(-(step * absorption * 40))\<close> lies in \<open>[0,1)\<close>; and the loop body takes an alpha
  in \<open>[0,1]\<close> to an alpha in \<open>[0,1]\<close>.
\<close>

theorem accumulated_alpha_unit_interval:
  assumes "unit_range tex"
  shows "ca (fst (ray_states tex u entryPoint vector thickness ! 0)) = 0
       \<and> (\<forall>k. k < length (ray_states tex u entryPoint vector thickness) \<longrightarrow>
              0 \<le> ca (fst (ray_states tex u entryPoint vector thickness ! k))
              \<and> ca (fst (ray_states tex u entryPoint vector thickness ! k)) \<le> 1)
       \<and> (\<forall>pos. 0 \<le> sampleVolume tex u pos \<and> sampleVolume tex u pos \<le> 1)
       \<and> (\<forall>sample. 0 \<le> sample \<and> sample \<le> 1 \<longrightarrow>
              0 \<le> tfAbsorbtion sample
              \<and> tfOpacity sample = 1 - exp (- (step * tfAbsorbtion sample * 40))
              \<and> 0 \<le> tfOpacity sample \<and> tfOpacity sample < 1)
       \<and> (\<forall>(s::ray_state) v. 0 \<le> ca (fst s) \<and> ca (fst s) \<le> 1 \<longrightarrow>
              0 \<le> ca (fst (loop_body tex u entryPoint v s))
              \<and> ca (fst (loop_body tex u entryPoint v s)) \<le> 1)"
proof -
  let ?xs = "ray_states tex u entryPoint vector thickness"
  have 1: "ca (fst (?xs ! 0)) = 0" by simp
  have "\<forall>t \<in> set ?xs. ca (fst (Vec4 0 0 0 0, 0::real)) \<le> ca (fst t) \<and> ca (fst t) \<le> 1"
    unfolding ray_states_def by (rule integrate_states_alpha) simp_all
  then have 2: "\<forall>k. k < length ?xs \<longrightarrow> 0 \<le> ca (fst (?xs ! k)) \<and> ca (fst (?xs ! k)) \<le> 1"
    by simp
  have 3: "\<forall>pos. 0 \<le> sampleVolume tex u pos \<and> sampleVolume tex u pos \<le> 1"
    using sampleVolume_range [OF assms] by blast
  have 4: "\<forall>sample. 0 \<le> sample \<and> sample \<le> 1 \<longrightarrow>
              0 \<le> tfAbsorbtion sample
              \<and> tfOpacity sample = 1 - exp (- (step * tfAbsorbtion sample * 40))
              \<and> 0 \<le> tfOpacity sample \<and> tfOpacity sample < 1"
    using tfAbsorbtion_nonneg tfOpacity_range by (simp add: tfOpacity_def)
  have 5: "\<forall>(s::ray_state) v. 0 \<le> ca (fst s) \<and> ca (fst s) \<le> 1 \<longrightarrow>
              0 \<le> ca (fst (loop_body tex u entryPoint v s))
              \<and> ca (fst (loop_body tex u entryPoint v s)) \<le> 1"
  proof (intro allI impI)
    fix s :: ray_state and v assume a: "0 \<le> ca (fst s) \<and> ca (fst s) \<le> 1"
    then have "ca (fst s) \<le> ca (fst (loop_body tex u entryPoint v s))"
      and "ca (fst (loop_body tex u entryPoint v s)) \<le> 1"
      by (simp_all add: loop_body_alpha_mono)
    with a show "0 \<le> ca (fst (loop_body tex u entryPoint v s))
              \<and> ca (fst (loop_body tex u entryPoint v s)) \<le> 1" by linarith
  qed
  show ?thesis using 1 2 3 4 5 by blast
qed

lemma full_volume_unit: "unit_range full_volume"
  by (simp add: unit_range_def full_volume_def)

theorem accumulated_alpha_unit_interval_witness:
  "unit_range full_volume
   \<and> ca (fst (ray_states full_volume atlas_uniforms (Vec3 0 0 0) (Vec3 0 0 1) (1 / 2) ! 0)) = 0
   \<and> 0 \<le> ca (fst (ray_states full_volume atlas_uniforms (Vec3 0 0 0) (Vec3 0 0 1) (1 / 2) ! Suc 0))
   \<and> ca (fst (ray_states full_volume atlas_uniforms (Vec3 0 0 0) (Vec3 0 0 1) (1 / 2) ! Suc 0)) \<le> 1
   \<and> tfOpacity 1 = 1 - exp (- (2 / 5)) \<and> 0 \<le> tfOpacity 1 \<and> tfOpacity 1 < 1"
proof -
  note t = accumulated_alpha_unit_interval
    [OF full_volume_unit, where u = atlas_uniforms and entryPoint = "Vec3 0 0 0"
       and vector = "Vec3 0 0 1" and thickness = "1 / 2"]
  have "0 \<le> ca (fst (ray_states full_volume atlas_uniforms (Vec3 0 0 0) (Vec3 0 0 1) (1 / 2) ! Suc 0))
      \<and> ca (fst (ray_states full_volume atlas_uniforms (Vec3 0 0 0) (Vec3 0 0 1) (1 / 2) ! Suc 0)) \<le> 1"
    using t full_volume_two_states by blast
  moreover have "0 \<le> tfOpacity 1 \<and> tfOpacity 1 < 1"
    using t by (simp add: full_volume_opacity)
  ultimately show ?thesis using t full_volume_unit full_volume_opacity by simp
qed

text \<open>
  Claim C4.  If the alpha of the entry point or of the exit point sampled at the pixel is
  below 0.1, \<open>gl_FragColor\<close> is \<open>(0,0,0,0)\<close> whatever the volume texture and the
  uniforms are, and \<open>integrateVolume\<close> is not called.
\<close>

theorem ray_miss_transparent:
  assumes "ca (uEntryPointsSampler vUV) < 0.1 \<or> ca (uExitPointsSampler vUV) < 0.1"
  shows "volume_main uEntryPointsSampler uExitPointsSampler tex u vUV
       = (Some (Vec4 0 0 0 0), [])"
  using assms by (simp add: volume_main_def Let_def)

theorem ray_miss_transparent_witness:
  "ca (cleared_target (1 / 2, 1 / 2)) < 0.1
   \<and> volume_main cleared_target back_face_target full_volume atlas_uniforms (1 / 2, 1 / 2)
       = (Some (Vec4 0 0 0 0), [])"
  using ray_miss_transparent [of cleared_target "(1 / 2, 1 / 2)" back_face_target full_volume atlas_uniforms]
  by (simp add: cleared_target_def)

lemma ray_hit_integrates:
  assumes "\<not> ca (uEntryPointsSampler vUV) < 0.1" and "\<not> ca (uExitPointsSampler vUV) < 0.1"
  shows "volume_main uEntryPointsSampler uExitPointsSampler tex u vUV
       = (integrateVolume tex u (xyz (uEntryPointsSampler vUV)) (xyz (uExitPointsSampler vUV)),
          [(xyz (uEntryPointsSampler vUV), xyz (uExitPointsSampler vUV))])"
  using assms by (simp add: volume_main_def Let_def)


section \<open>Properties of the host program\<close>

lemma registered_simps:
  "registered (registerUniform p name) name' =
     (if name' = name then linked p else registered p name')"
  "registered (registerAttribute p name) name' = registered p name'"
  by (auto simp: registered_def registerUniform_def registerAttribute_def)

lemma register_fields [simp]:
  "linked (registerUniform p name) = linked p"
  "linked (registerAttribute p name) = linked p"
  "program (registerUniform p name) = program p"
  "program (registerAttribute p name) = program p"
  by (simp_all add: registerUniform_def registerAttribute_def)

lemma ShaderProgram_ok:
  assumes "compiles env v" "compiles env f" "links env v f"
  shows "ShaderProgram env v f =
     (Inr \<lparr>program = (v, f), vs = True, fs = True, linked = True,
           attributes = Map.empty, uniforms = Map.empty\<rparr>, [])"
  using assms by (simp add: ShaderProgram_def createShader_def Let_def)

lemma initGL_gl_ready:
  assumes "context_available env" "float_textures env"
    and "compiles env ''entry-exitpoints-vs''" "compiles env ''entry-exitpoints-fs''"
    and "compiles env ''volume-vs''" "compiles env ''volume-fs''"
    and "links env ''entry-exitpoints-vs'' ''entry-exitpoints-fs''"
    and "links env ''volume-vs'' ''volume-fs''"
  shows "fst (initGL env r)" and "gl_ready (snd (initGL env r))"
  using assms
  by (simp_all add: initGL_def initGL_try_def initShaders_def ShaderProgram_ok Let_def
      initFramebuffers_def gl_ready_def registered_simps)

lemma initVolumeGeometry_initialised:
  "gl_ready r \<Longrightarrow> initialised (initVolumeGeometry r tex w h n spr)"
  by (simp add: initialised_def gl_ready_def initVolumeGeometry_def)

lemma demo_renderer_initialised: "initialised demo_renderer"
  unfolding demo_renderer_def
  by (intro initVolumeGeometry_initialised initGL_gl_ready) (simp_all add: demo_browser_def)

lemma setUniform_registered:
  "registered p name \<Longrightarrow> setUniform p name val = Uniform (Some (program p, name)) val"
  by (simp add: setUniform_def registered_def)

lemma draw_calls:
  assumes "initialised r"
    and "gl r = Some c" and "anim r = Some angle" and "domainCube r = Some cube"
    and "shaders_entryExitPoints r = Some p" and "shaders_volume r = Some p'"
    and "textures_volume r = Some t"
  shows "draw r =
     (None,
      [UseProgram (''entry-exitpoints-vs'', ''entry-exitpoints-fs''),
       Uniform (Some ((''entry-exitpoints-vs'', ''entry-exitpoints-fs''), ''uProjectionMatrix''))
         (MatrixValue (Projection (js_div (viewportWidth c) (viewportHeight c)))),
       Uniform (Some ((''entry-exitpoints-vs'', ''entry-exitpoints-fs''), ''uModelViewMatrix''))
         (MatrixValue (ModelView angle (cubeDimensions cube))),
       ClearColor 0 0 0 0, EnableVertexAttribArray 0, EnableDepthTest,
       BindFramebuffer (Some Exitpoints), DepthFunc GREATER, ClearDepth (- 1), Clear]
      @ cube_render (aVertexPosition p)
      @ [BindTexture None, BindRenderbuffer, BindFramebuffer None,
         DepthFunc LESS, ClearDepth 1, BindFramebuffer (Some Entrypoints), Clear]
      @ cube_render (aVertexPosition p)
      @ [BindTexture None, BindRenderbuffer, BindFramebuffer None,
         UseProgram (''volume-vs'', ''volume-fs''),
         DepthFunc GREATER, ClearDepth (- 1), Clear,
         ActiveTexture 0, BindTexture (Some (TargetTexture Entrypoints)),
         ActiveTexture 1, BindTexture (Some (TargetTexture Exitpoints)),
         setUniform p' ''uEntryPointsSampler'' (IntValue 0),
         setUniform p' ''uExitPointsSampler'' (IntValue 1)]
      @ (if isLoaded t
         then [ActiveTexture 2, BindTexture (Some VolumeTexture),
               setUniform p' ''uVolumeTexture'' (IntValue 2)]
         else [])
      @ quad_render None)"
  using assms
  by (simp add: draw_def initialised_def gl_ready_def use_def setMatrices_def
      on_framebuffer_def domainCube_render_def attach_def detach_def bindAsTexture_def
      setUniform_registered)

text \<open>
  Claim C6.  On an initialised renderer \<open>draw\<close> raises nothing and, from any state of
  the context, its calls make exactly three passes, in this order: the cube into the exit
  target with depth test \<open>GREATER\<close> on a depth buffer cleared with clear depth -1; the
  cube into the entry target with depth test \<open>LESS\<close> on a depth buffer cleared with clear
  depth +1, under the same model-view and projection matrices; and the full-screen quad
  with the volume program into the default framebuffer.
\<close>

theorem draw_three_passes:
  assumes "initialised r"
    and "gl r = Some c" and "anim r = Some angle" and "domainCube r = Some cube"
  shows "fst (draw r) = None
       \<and> passes (snd (draw r)) g =
          [\<lparr>pass_target = Some Exitpoints,
            pass_program = Some (''entry-exitpoints-vs'', ''entry-exitpoints-fs''),
            pass_mesh = Some Cube, pass_depth_func = GREATER, pass_clear_depth = Some (- 1),
            pass_modelView = Some (MatrixValue (ModelView angle (cubeDimensions cube))),
            pass_projection =
              Some (MatrixValue (Projection (js_div (viewportWidth c) (viewportHeight c))))\<rparr>,
           \<lparr>pass_target = Some Entrypoints,
            pass_program = Some (''entry-exitpoints-vs'', ''entry-exitpoints-fs''),
            pass_mesh = Some Cube, pass_depth_func = LESS, pass_clear_depth = Some 1,
            pass_modelView = Some (MatrixValue (ModelView angle (cubeDimensions cube))),
            pass_projection =
              Some (MatrixValue (Projection (js_div (viewportWidth c) (viewportHeight c))))\<rparr>,
           \<lparr>pass_target = None, pass_program = Some (''volume-vs'', ''volume-fs''),
            pass_mesh = Some Quad, pass_depth_func = GREATER, pass_clear_depth = Some (- 1),
            pass_modelView = uniform_values g ((''volume-vs'', ''volume-fs''), ''uModelViewMatrix''),
            pass_projection = uniform_values g ((''volume-vs'', ''volume-fs''), ''uProjectionMatrix'')\<rparr>]"
proof -
  from assms(1) obtain p p' t where
    s: "shaders_entryExitPoints r = Some p" "shaders_volume r = Some p'"
       "textures_volume r = Some t"
    by (auto simp: initialised_def gl_ready_def split: option.splits)
  have p': "program p' = (''volume-vs'', ''volume-fs'')"
    "registered p' ''uEntryPointsSampler''" "registered p' ''uExitPointsSampler''"
    "registered p' ''uVolumeTexture''"
    using assms(1) s by (simp_all add: initialised_def gl_ready_def)
  show ?thesis
    unfolding draw_calls [OF assms s]
    by (simp add: cube_render_def quad_render_def snapshot_def uniform_in_use_def
        setUniform_registered p')
qed

lemma demo_renderer_fields:
  "gl demo_renderer = Some \<lparr>viewportWidth = 500, viewportHeight = 500\<rparr>"
  "anim demo_renderer = Some 0"
  "domainCube demo_renderer = Some (VolumeCubeDomain 128 128 114 11)"
  by (simp_all add: demo_renderer_def initVolumeGeometry_def initGL_def initGL_try_def
      initShaders_def ShaderProgram_ok Let_def initFramebuffers_def demo_browser_def)

lemma demo_cube: "cubeDimensions (VolumeCubeDomain 128 128 114 spr)
    = Dimensions (Finite 1) (Finite 1) (Finite 0.890625)"
  by (simp add: VolumeCubeDomain_def js_div_def)

theorem draw_three_passes_witness:
  "fst (draw demo_renderer) = None
   \<and> passes (snd (draw demo_renderer)) initial_gl_state =
          [\<lparr>pass_target = Some Exitpoints,
            pass_program = Some (''entry-exitpoints-vs'', ''entry-exitpoints-fs''),
            pass_mesh = Some Cube, pass_depth_func = GREATER, pass_clear_depth = Some (- 1),
            pass_modelView =
              Some (MatrixValue (ModelView 0 (Dimensions (Finite 1) (Finite 1) (Finite 0.890625)))),
            pass_projection = Some (MatrixValue (Projection (Finite 1)))\<rparr>,
           \<lparr>pass_target = Some Entrypoints,
            pass_program = Some (''entry-exitpoints-vs'', ''entry-exitpoints-fs''),
            pass_mesh = Some Cube, pass_depth_func = LESS, pass_clear_depth = Some 1,
            pass_modelView =
              Some (MatrixValue (ModelView 0 (Dimensions (Finite 1) (Finite 1) (Finite 0.890625)))),
            pass_projection = Some (MatrixValue (Projection (Finite 1)))\<rparr>,
           \<lparr>pass_target = None, pass_program = Some (''volume-vs'', ''volume-fs''),
            pass_mesh = Some Quad, pass_depth_func = GREATER, pass_clear_depth = Some (- 1),
            pass_modelView = None, pass_projection = None\<rparr>]"
  using draw_three_passes [OF demo_renderer_initialised demo_renderer_fields, of initial_gl_state]
  by (simp add: demo_cube js_div_def initial_gl_state_def)

lemma uniform_passed_onload:
  assumes "gl_ready r"
  shows "fst (fst (volume_onload w h n spr iw ih (initVolumeGeometry r tex w h n spr))) = None"
    and "uniform_passed ((''volume-vs'', ''volume-fs''), ''uNumSlices'')
           (snd (fst (volume_onload w h n spr iw ih (initVolumeGeometry r tex w h n spr))))
         = Some (IntValue n)"
    and "uniform_passed ((''volume-vs'', ''volume-fs''), ''uSlicesPerRow'')
           (snd (fst (volume_onload w h n spr iw ih (initVolumeGeometry r tex w h n spr))))
         = Some (IntValue spr)"
    and "uniform_passed ((''volume-vs'', ''volume-fs''), ''uSliceWidth'')
           (snd (fst (volume_onload w h n spr iw ih (initVolumeGeometry r tex w h n spr))))
         = Some (FloatValue (js_div w iw))"
    and "uniform_passed ((''volume-vs'', ''volume-fs''), ''uSliceHeight'')
           (snd (fst (volume_onload w h n spr iw ih (initVolumeGeometry r tex w h n spr))))
         = Some (FloatValue (js_div h ih))"
proof -
  from assms obtain p where p: "shaders_volume r = Some p"
    "program p = (''volume-vs'', ''volume-fs'')"
    "registered p ''uNumSlices''" "registered p ''uSlicesPerRow''"
    "registered p ''uSliceWidth''" "registered p ''uSliceHeight''"
    by (auto simp: gl_ready_def split: option.splits)
  have g: "gl r \<noteq> None" using assms by (simp add: gl_ready_def)
  have c: "fst (volume_onload w h n spr iw ih (initVolumeGeometry r tex w h n spr)) =
      (None, [BindTexture (Some VolumeTexture), PixelStorei, TexImage2D,
              TexParameteri, TexParameteri, TexParameteri, TexParameteri, BindTexture None,
              Uniform (Some ((''volume-vs'', ''volume-fs''), ''uNumSlices'')) (IntValue n),
              Uniform (Some ((''volume-vs'', ''volume-fs''), ''uSlicesPerRow'')) (IntValue spr),
              Uniform (Some ((''volume-vs'', ''volume-fs''), ''uSliceWidth''))
                (FloatValue (js_div w iw)),
              Uniform (Some ((''volume-vs'', ''volume-fs''), ''uSliceHeight''))
                (FloatValue (js_div h ih))])"
    using p g by (simp add: volume_onload_def initVolumeGeometry_def setUniform_registered)
  show "fst (fst (volume_onload w h n spr iw ih (initVolumeGeometry r tex w h n spr))) = None"
    and "uniform_passed ((''volume-vs'', ''volume-fs''), ''uNumSlices'')
           (snd (fst (volume_onload w h n spr iw ih (initVolumeGeometry r tex w h n spr))))
         = Some (IntValue n)"
    and "uniform_passed ((''volume-vs'', ''volume-fs''), ''uSlicesPerRow'')
           (snd (fst (volume_onload w h n spr iw ih (initVolumeGeometry r tex w h n spr))))
         = Some (IntValue spr)"
    and "uniform_passed ((''volume-vs'', ''volume-fs''), ''uSliceWidth'')
           (snd (fst (volume_onload w h n spr iw ih (initVolumeGeometry r tex w h n spr))))
         = Some (FloatValue (js_div w iw))"
    and "uniform_passed ((''volume-vs'', ''volume-fs''), ''uSliceHeight'')
           (snd (fst (volume_onload w h n spr iw ih (initVolumeGeometry r tex w h n spr))))
         = Some (FloatValue (js_div h ih))"
    unfolding c by simp_all
qed

lemma initVolumeGeometry_domain:
  "gl r \<noteq> None \<Longrightarrow>
     domainCube (initVolumeGeometry r tex w h n spr) = Some (VolumeCubeDomain w h n spr)"
  by (auto simp: initVolumeGeometry_def)

lemma update_initialised:
  "initialised r \<Longrightarrow> fst (update r elapsed) = None \<and> initialised (snd (update r elapsed))"
  by (auto simp: update_def initialised_def gl_ready_def split: option.splits)

lemma volume_onload_initialised:
  "initialised r \<Longrightarrow> initialised (snd (volume_onload w h n spr iw ih r))"
  by (auto simp: volume_onload_def initialised_def gl_ready_def Let_def split: option.splits)

lemma volume_onload_loaded:
  "textures_volume r = Some t \<Longrightarrow>
     map_option isLoaded (textures_volume (snd (volume_onload w h n spr iw ih r))) = Some True"
  by (simp add: volume_onload_def Let_def)

lemma draw_uninitialised: "gl r = None \<Longrightarrow> draw r = (None, [])"
  by (simp add: draw_def)

lemma draw_without_volume:
  "gl_ready r \<Longrightarrow> domainCube r = None \<Longrightarrow>
     draw r = (Some TypeError, [UseProgram (''entry-exitpoints-vs'', ''entry-exitpoints-fs'')])"
  by (auto simp: draw_def gl_ready_def use_def setMatrices_def split: option.splits)

lemma onload_after_draw_sets_slice_uniforms:
  assumes "gl_ready r" and "r' = initVolumeGeometry r tex w h n spr"
  shows "uniform_values
           (fold exec (snd (draw r') @ snd (fst (volume_onload w h n spr iw ih r'))) g)
           ((''volume-vs'', ''volume-fs''), ''uSliceWidth'') = Some (FloatValue (js_div w iw))"
    and "uniform_values
           (fold exec (snd (draw r') @ snd (fst (volume_onload w h n spr iw ih r'))) g)
           ((''volume-vs'', ''volume-fs''), ''uSliceHeight'') = Some (FloatValue (js_div h ih))"
proof -
  have i: "initialised r'" using assms by (simp add: initVolumeGeometry_initialised)
  then obtain c angle cube p p' t where
    s: "gl r' = Some c" "anim r' = Some angle" "domainCube r' = Some cube"
       "shaders_entryExitPoints r' = Some p" "shaders_volume r' = Some p'"
       "textures_volume r' = Some t"
    by (auto simp: initialised_def gl_ready_def split: option.splits)
  have p': "program p' = (''volume-vs'', ''volume-fs'')"
    "registered p' ''uEntryPointsSampler''" "registered p' ''uExitPointsSampler''"
    "registered p' ''uVolumeTexture''" "registered p' ''uNumSlices''"
    "registered p' ''uSlicesPerRow''" "registered p' ''uSliceWidth''"
    "registered p' ''uSliceHeight''"
    using i s by (simp_all add: initialised_def gl_ready_def)
  have o: "snd (fst (volume_onload w h n spr iw ih r')) =
      [BindTexture (Some VolumeTexture), PixelStorei, TexImage2D,
       TexParameteri, TexParameteri, TexParameteri, TexParameteri, BindTexture None,
       Uniform (Some ((''volume-vs'', ''volume-fs''), ''uNumSlices'')) (IntValue n),
       Uniform (Some ((''volume-vs'', ''volume-fs''), ''uSlicesPerRow'')) (IntValue spr),
       Uniform (Some ((''volume-vs'', ''volume-fs''), ''uSliceWidth'')) (FloatValue (js_div w iw)),
       Uniform (Some ((''volume-vs'', ''volume-fs''), ''uSliceHeight'')) (FloatValue (js_div h ih))]"
    using s p' by (simp add: volume_onload_def setUniform_registered)
  show "uniform_values
           (fold exec (snd (draw r') @ snd (fst (volume_onload w h n spr iw ih r'))) g)
           ((''volume-vs'', ''volume-fs''), ''uSliceWidth'') = Some (FloatValue (js_div w iw))"
    and "uniform_values
           (fold exec (snd (draw r') @ snd (fst (volume_onload w h n spr iw ih r'))) g)
           ((''volume-vs'', ''volume-fs''), ''uSliceHeight'') = Some (FloatValue (js_div h ih))"
    unfolding draw_calls [OF i s] o
    by (simp_all add: cube_render_def quad_render_def setUniform_registered p')
qed

text \<open>
  Claim C7.  For positive \<open>sliceWidth\<close>, \<open>sliceHeight\<close> and \<open>slices\<close> the cube dimensions of
  the constructed domain are \<open>(1, sliceHeight / sliceWidth, slices / sliceWidth)\<close>; for
  128, 128 and 114 they are \<open>(1, 1, 0.890625)\<close>; and when the image has loaded with a
  positive pixel size, the callback passes \<open>sliceWidth / image.width\<close> for \<open>uSliceWidth\<close>
  and \<open>sliceHeight / image.height\<close> for \<open>uSliceHeight\<close>, which are the values of
  these uniforms of the volume program once the callback has run after a frame.
\<close>

theorem cube_extents_and_slice_size:
  assumes "0 < w" and "0 < h" and "0 < n" and "0 < iw" and "0 < ih" and "gl_ready r"
  shows "domainCube (initVolumeGeometry r tex w h n spr) = Some (VolumeCubeDomain w h n spr)
       \<and> cubeDimensions (VolumeCubeDomain w h n spr)
           = Dimensions (Finite 1) (Finite (of_int h / of_int w)) (Finite (of_int n / of_int w))
       \<and> cubeDimensions (VolumeCubeDomain 128 128 114 spr)
           = Dimensions (Finite 1) (Finite 1) (Finite 0.890625)
       \<and> uniform_passed ((''volume-vs'', ''volume-fs''), ''uSliceWidth'')
           (snd (fst (volume_onload w h n spr iw ih (initVolumeGeometry r tex w h n spr))))
           = Some (FloatValue (Finite (of_int w / of_int iw)))
       \<and> uniform_passed ((''volume-vs'', ''volume-fs''), ''uSliceHeight'')
           (snd (fst (volume_onload w h n spr iw ih (initVolumeGeometry r tex w h n spr))))
           = Some (FloatValue (Finite (of_int h / of_int ih)))
       \<and> uniform_values
           (fold exec (snd (draw (initVolumeGeometry r tex w h n spr))
                       @ snd (fst (volume_onload w h n spr iw ih
                                     (initVolumeGeometry r tex w h n spr)))) g)
           ((''volume-vs'', ''volume-fs''), ''uSliceWidth'')
           = Some (FloatValue (Finite (of_int w / of_int iw)))
       \<and> uniform_values
           (fold exec (snd (draw (initVolumeGeometry r tex w h n spr))
                       @ snd (fst (volume_onload w h n spr iw ih
                                     (initVolumeGeometry r tex w h n spr)))) g)
           ((''volume-vs'', ''volume-fs''), ''uSliceHeight'')
           = Some (FloatValue (Finite (of_int h / of_int ih)))"
proof -
  have "gl r \<noteq> None" using assms(6) by (simp add: gl_ready_def)
  then have "domainCube (initVolumeGeometry r tex w h n spr) = Some (VolumeCubeDomain w h n spr)"
    by (rule initVolumeGeometry_domain)
  moreover have "cubeDimensions (VolumeCubeDomain w h n spr)
      = Dimensions (Finite 1) (Finite (of_int h / of_int w)) (Finite (of_int n / of_int w))"
    using assms(1) by (simp add: VolumeCubeDomain_def js_div_def)
  moreover have "js_div w iw = Finite (of_int w / of_int iw)"
    "js_div h ih = Finite (of_int h / of_int ih)"
    using assms(4,5) by (simp_all add: js_div_def)
  ultimately show ?thesis
    using uniform_passed_onload(4,5) [OF assms(6), of w h n spr iw ih tex] demo_cube [of spr]
      onload_after_draw_sets_slice_uniforms [OF assms(6) refl, of tex w h n spr iw ih g]
    by simp
qed

theorem cube_extents_and_slice_size_witness:
  "domainCube (initVolumeGeometry (snd (initGL demo_browser VolumeRenderer)) ''tex.png'' 128 128 114 11)
     = Some \<lparr>sliceWidth = 128, sliceHeight = 128, slices = 114, slicesPerRow = 11,
             cubeDimensions = Dimensions (Finite 1) (Finite 1) (Finite 0.890625)\<rparr>
   \<and> uniform_passed ((''volume-vs'', ''volume-fs''), ''uSliceWidth'')
        (snd (fst (volume_onload 128 128 114 11 1408 1408 demo_renderer)))
       = Some (FloatValue (Finite (1 / 11)))
   \<and> uniform_passed ((''volume-vs'', ''volume-fs''), ''uSliceHeight'')
        (snd (fst (volume_onload 128 128 114 11 1408 1408 demo_renderer)))
       = Some (FloatValue (Finite (1 / 11)))
   \<and> uniform_values
        (fold exec (snd (draw demo_renderer)
                    @ snd (fst (volume_onload 128 128 114 11 1408 1408 demo_renderer)))
           initial_gl_state)
        ((''volume-vs'', ''volume-fs''), ''uSliceWidth'')
       = Some (FloatValue (Finite (1 / 11)))"
proof -
  have r: "gl_ready (snd (initGL demo_browser VolumeRenderer))"
    by (rule initGL_gl_ready) (simp_all add: demo_browser_def)
  show ?thesis
    using cube_extents_and_slice_size
      [OF _ _ _ _ _ r, where w = 128 and h = 128 and n = 114 and iw = 1408 and ih = 1408
         and tex = "''tex.png''" and spr = 11 and g = initial_gl_state]
    by (simp add: demo_renderer_def VolumeCubeDomain_def js_div_def)
qed

lemma ShaderProgram_never_throws_when_compiled:
  assumes "compiles env v" "compiles env f"
  shows "ShaderProgram env v f =
     (Inr \<lparr>program = (v, f), vs = True, fs = True, linked = links env v f,
           attributes = Map.empty, uniforms = Map.empty\<rparr>,
      if links env v f then [] else [LinkAlert])"
  using assms by (simp add: ShaderProgram_def createShader_def Let_def)

lemma initGL_ignores_link_status:
  assumes "context_available env" "float_textures env"
    and "compiles env ''entry-exitpoints-vs''" "compiles env ''entry-exitpoints-fs''"
    and "compiles env ''volume-vs''" "compiles env ''volume-fs''"
  shows "fst (initGL env r)" and "gl (snd (initGL env r)) \<noteq> None"
  using assms
  by (simp_all add: initGL_def initGL_try_def initShaders_def
      ShaderProgram_never_throws_when_compiled Let_def initFramebuffers_def)

lemma initGL_fails_without_context:
  "\<not> context_available env \<Longrightarrow>
     \<not> fst (initGL env r) \<and> gl (snd (initGL env r)) = None \<and> \<not> canvas (snd (initGL env r))"
  by (simp add: initGL_def initGL_try_def Let_def)

lemma initGL_fails_without_float_textures:
  "\<not> float_textures env \<Longrightarrow>
     \<not> fst (initGL env r) \<and> gl (snd (initGL env r)) = None \<and> \<not> canvas (snd (initGL env r))"
  by (simp add: initGL_def initGL_try_def Let_def)

lemma initGL_compile_failure:
  assumes "context_available env" "float_textures env"
    and "\<not> compiles env ''entry-exitpoints-vs'' \<or> \<not> compiles env ''entry-exitpoints-fs''
       \<or> \<not> compiles env ''volume-vs'' \<or> \<not> compiles env ''volume-fs''"
  shows "fst (initGL env r) = (\<not> null_shader_throws env)"
  using assms
  by (auto simp: initGL_def initGL_try_def initShaders_def ShaderProgram_def createShader_def
      Let_def initFramebuffers_def split: prod.splits sum.splits option.splits)

text \<open>
  Claim C8 fails on the code.  When both shaders of the volume program compile and the
  program does not link, \<open>ShaderProgram\<close> shows an alert and deletes the program, and
  \<open>initGL\<close> goes on: it returns \<open>true\<close> and keeps the context and the canvas.
\<close>

theorem initGL_succeeds_after_link_failure:
  "links link_failure_browser ''volume-vs'' ''volume-fs'' = False
   \<and> fst (initGL link_failure_browser VolumeRenderer) = True
   \<and> gl (snd (initGL link_failure_browser VolumeRenderer))
       = Some \<lparr>viewportWidth = 500, viewportHeight = 500\<rparr>
   \<and> canvas (snd (initGL link_failure_browser VolumeRenderer)) = True
   \<and> alerts (snd (initGL link_failure_browser VolumeRenderer)) = [LinkAlert]
   \<and> map_option linked (shaders_volume (snd (initGL link_failure_browser VolumeRenderer)))
       = Some False"
  by (simp add: initGL_def initGL_try_def initShaders_def
      ShaderProgram_never_throws_when_compiled Let_def initFramebuffers_def
      link_failure_browser_def demo_browser_def VolumeRenderer_def)

text \<open>
  Claim C9, as amended.  Nothing is checked at construction: for all values of the
  parameters \<open>initVolumeGeometry\<close> on a ready renderer constructs the domain, which
  holds them unchanged, and the load callback raises nothing and passes \<open>slices\<close> and
  \<open>slicesPerRow\<close> unchanged for \<open>uNumSlices\<close> and \<open>uSlicesPerRow\<close>.
\<close>

theorem construction_accepts_all_parameters:
  assumes "gl_ready r"
  shows "domainCube (initVolumeGeometry r tex w h n spr) = Some (VolumeCubeDomain w h n spr)
       \<and> sliceWidth (VolumeCubeDomain w h n spr) = w
       \<and> sliceHeight (VolumeCubeDomain w h n spr) = h
       \<and> slices (VolumeCubeDomain w h n spr) = n
       \<and> slicesPerRow (VolumeCubeDomain w h n spr) = spr
       \<and> fst (fst (volume_onload w h n spr iw ih (initVolumeGeometry r tex w h n spr))) = None
       \<and> uniform_passed ((''volume-vs'', ''volume-fs''), ''uNumSlices'')
           (snd (fst (volume_onload w h n spr iw ih (initVolumeGeometry r tex w h n spr))))
           = Some (IntValue n)
       \<and> uniform_passed ((''volume-vs'', ''volume-fs''), ''uSlicesPerRow'')
           (snd (fst (volume_onload w h n spr iw ih (initVolumeGeometry r tex w h n spr))))
           = Some (IntValue spr)"
proof -
  have "gl r \<noteq> None" using assms by (simp add: gl_ready_def)
  then have "domainCube (initVolumeGeometry r tex w h n spr) = Some (VolumeCubeDomain w h n spr)"
    by (rule initVolumeGeometry_domain)
  then show ?thesis
    using uniform_passed_onload(1,2,3) [OF assms, of w h n spr iw ih tex]
    by (simp add: VolumeCubeDomain_def)
qed

theorem construction_accepts_all_parameters_witness:
  "slices (VolumeCubeDomain 128 128 1 0) = 1
   \<and> slicesPerRow (VolumeCubeDomain 128 128 1 0) = 0
   \<and> uniform_passed ((''volume-vs'', ''volume-fs''), ''uNumSlices'')
        (snd (fst (volume_onload 128 128 1 0 128 128 degenerate_renderer))) = Some (IntValue 1)
   \<and> uniform_passed ((''volume-vs'', ''volume-fs''), ''uSlicesPerRow'')
        (snd (fst (volume_onload 128 128 1 0 128 128 degenerate_renderer))) = Some (IntValue 0)"
proof -
  have r: "gl_ready (snd (initGL demo_browser VolumeRenderer))"
    by (rule initGL_gl_ready) (simp_all add: demo_browser_def)
  show ?thesis
    using construction_accepts_all_parameters [OF r, of "''tex.png''" 128 128 1 0 128 128]
    by (simp add: degenerate_renderer_def)
qed

text \<open>
  Claim C9 as stated fails: with one slice and zero slices per row, \<open>initVolumeGeometry\<close>
  constructs the domain and starts loading the image, and nothing is reported.
\<close>

theorem construction_rejects_degenerate_counterexample:
  "fst (initGL demo_browser VolumeRenderer) = True
   \<and> domainCube degenerate_renderer
       = Some \<lparr>sliceWidth = 128, sliceHeight = 128, slices = 1, slicesPerRow = 0,
               cubeDimensions = Dimensions (Finite 1) (Finite 1) (Finite (1 / 128))\<rparr>
   \<and> textures_volume degenerate_renderer = Some \<lparr>isLoaded = False, image_src = ''tex.png''\<rparr>
   \<and> console degenerate_renderer = [] \<and> alerts degenerate_renderer = []"
  by (simp add: degenerate_renderer_def initVolumeGeometry_def initGL_def initGL_try_def
      initShaders_def ShaderProgram_ok Let_def initFramebuffers_def demo_browser_def
      VolumeRenderer_def VolumeCubeDomain_def js_div_def)

end
